theory Spec2Isabelle
  imports Main "HOL-Library.Word"
begin

section \<open>Data model of the tiling engine\<close>

text \<open>
  The Go code works on a graph of pointers: a frame points to its column, a column to its
  workspace and to its frames, a workspace to its columns and to its output. Pointers are
  modelled as references (natural numbers) into four stores held by the state, so that
  two pointers to one object stay one object; a pointer that can be \<open>nil\<close> is an
  \<open>option\<close>. Go's \<open>uint32\<close> is \<open>32 word\<close>, so the geometry arithmetic wraps around as it
  does in the program.
\<close>

type_synonym u32 = "32 word"
type_synonym u16 = "16 word"
type_synonym u8 = "8 word"

text \<open>\<open>xproto.Window\<close> is a \<open>uint32\<close>.\<close>

type_synonym window = u32

type_synonym fref = nat
type_synonym cref = nat
type_synonym wref = nat
type_synonym oref = nat

text \<open>\<open>x11.Geom\<close>: its fields are written into a \<open>[]uint32\<close> by \<open>renderFrame\<close>.\<close>

record Geom =
  X :: u32
  Y :: u32
  W :: u32
  H :: u32

datatype winType = winTypeUnknown | winTypeNormal | winTypeDock

datatype MoveDirection = MoveLeft | MoveRight | MoveUp | MoveDown

datatype dockArea = dockAreaTop | dockAreaBottom

text \<open>
  \<open>frame\<close> as declared in \<open>wm/frame.go\<close>; the title of the client and the title bar are
  left out, no operation below reads them. The field \<open>typ\<close> is \<open>typ_frame\<close> here.
\<close>

record client =
  window :: window

record frame =
  col :: "cref option"
  parent :: window
  client :: client
  height :: u32
  typ_frame :: winType
  mapped :: bool
  geom :: Geom

text \<open>
  The declarations of \<open>column\<close>, \<open>workspace\<close> and \<open>output\<close> are not among the source files;
  the fields are those the source files read: \<open>col.ws\<close>, \<open>col.frames\<close>, \<open>col.width\<close>,
  \<open>ws.id\<close>, \<open>ws.columns\<close>, \<open>ws.output\<close>, \<open>o.geom\<close>, \<open>o.dockAreas[area]\<close>, \<open>o.activeWs\<close>.
  \<open>id\<close> and \<open>output\<close> are \<open>id_ws\<close> and \<open>output_ws\<close> here, and the type \<open>output\<close> is
  \<open>output_t\<close>.
\<close>

record column =
  ws :: wref
  frames :: "fref list"
  width :: u32

record workspace =
  id_ws :: u8
  columns :: "cref list"
  output_ws :: "oref option"

record output_t =
  geom :: Geom
  dockAreas :: "dockArea \<Rightarrow> fref list"
  activeWs :: "wref option"

text \<open>
  Modelled from the spec: the declaration of \<open>Config\<close> is not among the source files.
  \<open>InnerGap\<close> is the field that \<open>renderColumn\<close> adds to a \<open>uint32\<close>; \<open>ColumnWidth\<close> stands for
  the spec's configured default width of a newly created column.
\<close>

record Config =
  InnerGap :: u32
  ColumnWidth :: u32

subsection \<open>Requests to the display server\<close>

text \<open>
  \<open>ConfigureWindow win x y w h\<close> is \<open>xproto.ConfigureWindowChecked\<close> with the mask
  \<open>X | Y | Width | Height\<close> and the four values. \<open>SendConfigureNotify\<close> is the synthetic
  \<open>ConfigureNotifyEvent\<close> sent with \<open>xproto.SendEventChecked\<close>: destination, event window,
  window, x and y (\<open>int16\<close>), width and height (\<open>uint16\<close>), border width, sibling and
  override-redirect. The remaining requests stand for the collaborators whose code is not
  among the source files.
\<close>

datatype xreq =
    ConfigureWindow window u32 u32 u32 u32
  | SendConfigureNotify window window window u16 u16 u16 u16 u16 window bool
  | UnmapWindow window
  | UpdateDesktopHints
  | RemoveFocus
  | SetFocus window

text \<open>
  The server is a parameter: given the requests issued so far and the next request, it
  says whether the request's \<open>Check()\<close> fails and with which error code.
\<close>

type_synonym xserver = "xreq list \<Rightarrow> xreq \<Rightarrow> nat option"

text \<open>
  Go's \<open>error\<close> values: a server error, the messages of \<open>ensureWorkspace\<close> and
  \<open>moveFrameToWorkspace\<close>, and \<open>fmt.Errorf("<text>: %v", err)\<close> as \<open>Wrap\<close>.
\<close>

datatype error =
    XError nat
  | NoWorkspace u8
  | MultipleOutputs
  | FrameNotContained u8
  | Wrap string error

text \<open>A call either returns or panics (nil dereference, index out of range).\<close>

datatype 'a outcome = is_Returned: Returned (result: 'a) | Panicked

text \<open>
  \<open>WM\<close> as declared in \<open>wm/wm.go\<close> (the key map and the actions are left out), together
  with the four stores that the references point into, the next column reference to hand
  out (\<open>&column{...}\<close> yields a pointer that nothing else holds) and the log of the
  requests sent to the server.
\<close>

record WM =
  outputs :: "oref list"
  config :: Config
  workspaces :: "wref list"
  activeWin :: window
  frame_of :: "fref \<Rightarrow> frame"
  column_of :: "cref \<Rightarrow> column"
  workspace_of :: "wref \<Rightarrow> workspace"
  output_of :: "oref \<Rightarrow> output_t"
  next_column :: cref
  xlog :: "xreq list"

text \<open>A checked request: it is appended to the log and the server's verdict is returned.\<close>

definition xcall :: "xserver \<Rightarrow> xreq \<Rightarrow> WM \<Rightarrow> error option \<times> WM" where
  "xcall srv r s = (map_option XError (srv (xlog s) r), s\<lparr>xlog := xlog s @ [r]\<rparr>)"

section \<open>The render engine\<close>

definition renderFrame :: "xserver \<Rightarrow> fref \<Rightarrow> Geom \<Rightarrow> WM \<Rightarrow> error option \<times> WM" where
  "renderFrame srv f g s =
    (if \<not> mapped (frame_of s f) then (None, s)
     else
       let s1 = s\<lparr>frame_of := (frame_of s)(f := (frame_of s f)\<lparr>frame.geom := g\<rparr>)\<rparr>;
           fr = frame_of s1 f;
           cw = window (client fr)
       in case xcall srv (ConfigureWindow (parent fr) (X g) (Y g) (W g) (H g)) s1 of
            (Some e, s2) \<Rightarrow> (Some e, s2)
          | (None, s2) \<Rightarrow>
              (case xcall srv (ConfigureWindow cw 0 0 (W g) (H g)) s2 of
                 (Some e, s3) \<Rightarrow> (Some e, s3)
               | (None, s3) \<Rightarrow>
                   (case xcall srv (SendConfigureNotify cw cw cw (ucast (X g)) (ucast (Y g))
                                      (ucast (W g)) (ucast (H g)) 0 0 True) s3 of
                      (Some e, s4) \<Rightarrow> (Some e, s4)
                    | (None, s4) \<Rightarrow> (None, s4))))"

text \<open>
  \<open>renderColumn\<close>: the loop over \<open>col.frames\<close>, with the running \<open>y\<close> and the error seen
  last. \<open>if e := wm.renderFrame(f, fg); e != nil { err = e }\<close> keeps the earlier error when
  the frame renders well.
\<close>

fun renderColumn_loop ::
  "xserver \<Rightarrow> u32 \<Rightarrow> Geom \<Rightarrow> fref list \<Rightarrow> u32 \<Rightarrow> error option \<Rightarrow> WM \<Rightarrow> error option \<times> WM" where
  "renderColumn_loop srv gap g [] y err s = (err, s)"
| "renderColumn_loop srv gap g (f # fs) y err s =
    (let fg = \<lparr>X = X g + gap, Y = y + gap, W = W g - gap * 2,
               H = height (frame_of s f) - gap * 2\<rparr>;
         (e, s') = renderFrame srv f fg s;
         err' = (case e of Some _ \<Rightarrow> e | None \<Rightarrow> err)
     in renderColumn_loop srv gap g fs (y + height (frame_of s' f)) err' s')"

definition renderColumn :: "xserver \<Rightarrow> cref \<Rightarrow> Geom \<Rightarrow> WM \<Rightarrow> error option \<times> WM" where
  "renderColumn srv c g s =
     renderColumn_loop srv (InnerGap (config s)) g (frames (column_of s c)) (Y g) None s"

text \<open>
  Modelled from the spec: \<open>(*output).dockHeight\<close> is not among the source files. The spec
  calls it the total dock height of an area: the summed height of the area's dock frames.
\<close>

definition dockHeight :: "WM \<Rightarrow> oref \<Rightarrow> dockArea \<Rightarrow> u32" where
  "dockHeight s out a = sum_list (map (\<lambda>f. height (frame_of s f)) (dockAreas (output_of s out) a))"

text \<open>
  \<open>renderDock\<close>: the loop assigns \<open>err = wm.renderFrame(f, geom)\<close> without a test, so each
  frame's result replaces the one before it.
\<close>

fun renderDock_loop ::
  "xserver \<Rightarrow> oref \<Rightarrow> fref list \<Rightarrow> u32 \<Rightarrow> error option \<Rightarrow> WM \<Rightarrow> error option \<times> WM" where
  "renderDock_loop srv out [] y err s = (err, s)"
| "renderDock_loop srv out (f # fs) y err s =
    (let g = \<lparr>X = X (output_t.geom (output_of s out)), Y = y,
              W = W (output_t.geom (output_of s out)), H = height (frame_of s f)\<rparr>;
         (e, s') = renderFrame srv f g s
     in renderDock_loop srv out fs (y + H g) e s')"

definition renderDock :: "xserver \<Rightarrow> oref \<Rightarrow> dockArea \<Rightarrow> WM \<Rightarrow> error option \<times> WM" where
  "renderDock srv out a s =
    (let y = (case a of
                dockAreaTop \<Rightarrow> Y (output_t.geom (output_of s out))
              | dockAreaBottom \<Rightarrow> H (output_t.geom (output_of s out)) - dockHeight s out a)
     in renderDock_loop srv out (dockAreas (output_of s out) a) y None s)"

text \<open>
  Modelled from the spec: \<open>(*workspace).singleFrame\<close> is not among the source files. The
  spec's single-frame fast path applies when the workspace holds exactly one frame in
  total, that is one column with one frame; the frame is returned then, nil otherwise.
\<close>

definition singleFrame :: "WM \<Rightarrow> wref \<Rightarrow> fref option" where
  "singleFrame s w =
    (case columns (workspace_of s w) of
       [c] \<Rightarrow> (case frames (column_of s c) of [f] \<Rightarrow> Some f | _ \<Rightarrow> None)
     | _ \<Rightarrow> None)"

text \<open>
  Modelled from the spec: \<open>(*workspace).fullArea\<close> and \<open>(*workspace).area\<close> are not among
  the source files. The spec's usable area for workspaces is the output rectangle minus the
  summed height of the dock areas on each edge; a workspace assigned to no output has no
  output to read (\<open>None\<close>, a nil dereference for the caller).
\<close>

definition fullArea :: "WM \<Rightarrow> wref \<Rightarrow> Geom option" where
  "fullArea s w =
    (case output_ws (workspace_of s w) of
       None \<Rightarrow> None
     | Some out \<Rightarrow>
         Some \<lparr>X = X (output_t.geom (output_of s out)),
               Y = Y (output_t.geom (output_of s out)) + dockHeight s out dockAreaTop,
               W = W (output_t.geom (output_of s out)),
               H = H (output_t.geom (output_of s out)) - dockHeight s out dockAreaTop
                     - dockHeight s out dockAreaBottom\<rparr>)"

definition area :: "WM \<Rightarrow> wref \<Rightarrow> Geom option" where
  "area s w = fullArea s w"

fun renderWorkspace_loop ::
  "xserver \<Rightarrow> Geom \<Rightarrow> cref list \<Rightarrow> u32 \<Rightarrow> error option \<Rightarrow> WM \<Rightarrow> error option \<times> WM" where
  "renderWorkspace_loop srv a [] x err s = (err, s)"
| "renderWorkspace_loop srv a (c # cs) x err s =
    (let g = \<lparr>X = x, Y = Y a, W = width (column_of s c), H = H a\<rparr>;
         (e, s') = renderColumn srv c g s;
         err' = (case e of Some _ \<Rightarrow> e | None \<Rightarrow> err)
     in renderWorkspace_loop srv a cs (x + width (column_of s' c)) err' s')"

definition renderWorkspace :: "xserver \<Rightarrow> wref \<Rightarrow> WM \<Rightarrow> (error option \<times> WM) outcome" where
  "renderWorkspace srv w s =
    (case singleFrame s w of
       Some f \<Rightarrow>
         (case fullArea s w of
            None \<Rightarrow> Panicked
          | Some a \<Rightarrow> Returned (renderFrame srv f a s))
     | None \<Rightarrow>
         (case area s w of
            None \<Rightarrow> Panicked
          | Some a \<Rightarrow>
              Returned (renderWorkspace_loop srv a (columns (workspace_of s w)) (X a) None s)))"

text \<open>
  \<open>renderOutput\<close>: three regions, each one run whatever the one before returned; \<open>err\<close> is
  overwritten by every region that fails. \<open>o.activeWs\<close> is a pointer: rendering a nil
  workspace panics.
\<close>

definition renderOutput :: "xserver \<Rightarrow> oref \<Rightarrow> WM \<Rightarrow> (error option \<times> WM) outcome" where
  "renderOutput srv out s =
    (let (e1, s1) = renderDock srv out dockAreaTop s;
         err1 = (case e1 of Some _ \<Rightarrow> e1 | None \<Rightarrow> None);
         (e2, s2) = renderDock srv out dockAreaBottom s1;
         err2 = (case e2 of Some _ \<Rightarrow> e2 | None \<Rightarrow> err1)
     in case activeWs (output_of s2 out) of
          None \<Rightarrow> Panicked
        | Some w \<Rightarrow>
            (case renderWorkspace srv w s2 of
               Panicked \<Rightarrow> Panicked
             | Returned (e3, s3) \<Rightarrow> Returned (case e3 of Some _ \<Rightarrow> e3 | None \<Rightarrow> err2, s3)))"

section \<open>Tree operations of the containers\<close>

text \<open>
  The methods of \<open>column\<close>, \<open>workspace\<close> and \<open>output\<close> are not among the source files, which
  only call them. Each is modelled from the sentence of the spec that describes it.
\<close>

text \<open>
  The loop \<open>for i, x := range xs { if predicate(x) { return i } }\<close>, counting from \<open>i\<close>;
  \<open>-1\<close> when nothing is found.
\<close>

fun find_from :: "('a \<Rightarrow> bool) \<Rightarrow> 'a list \<Rightarrow> int \<Rightarrow> int" where
  "find_from P [] i = - 1"
| "find_from P (x # xs) i = (if P x then i else find_from P xs (i + 1))"

text \<open>
  Modelled from the spec: \<open>(*column).findFrameIndex\<close> is not among the source files. The spec
  swaps a frame "with the adjacent sibling by index": the index of the first frame of the
  column that satisfies the predicate, \<open>-1\<close> when there is none.
\<close>

definition findFrameIndex :: "WM \<Rightarrow> cref \<Rightarrow> (fref \<Rightarrow> bool) \<Rightarrow> int" where
  "findFrameIndex s c P = find_from P (frames (column_of s c)) 0"

text \<open>
  Modelled from the spec: \<open>(*workspace).findColumnIndex\<close> is not among the source files. The
  index of the first column of the workspace that satisfies the predicate (the spec's
  leftmost column is the one at index 0), \<open>-1\<close> when there is none.
\<close>

definition findColumnIndex :: "WM \<Rightarrow> wref \<Rightarrow> (cref \<Rightarrow> bool) \<Rightarrow> int" where
  "findColumnIndex s w P = find_from P (columns (workspace_of s w)) 0"

text \<open>
  Modelled from the spec: \<open>(*column).deleteFrame\<close> is not among the source files. The spec
  says "remove the frame from its current column"; ownership is given up, so the frame's
  column pointer is cleared.
\<close>

definition column_deleteFrame :: "cref \<Rightarrow> fref \<Rightarrow> WM \<Rightarrow> WM" where
  "column_deleteFrame c f s =
     s\<lparr>column_of := (column_of s)(c := (column_of s c)\<lparr>frames := remove1 f (frames (column_of s c))\<rparr>),
       frame_of := (frame_of s)(f := (frame_of s f)\<lparr>col := None\<rparr>)\<rparr>"

text \<open>
  Modelled from the spec: \<open>(*column).addFrame\<close> is not among the source files. The spec says
  "insert the frame" into the column, which becomes the frame's owner; called with no
  frame to insert after, the frame goes to the end.
\<close>

definition column_addFrame :: "cref \<Rightarrow> fref \<Rightarrow> WM \<Rightarrow> WM" where
  "column_addFrame c f s =
     s\<lparr>column_of := (column_of s)(c := (column_of s c)\<lparr>frames := frames (column_of s c) @ [f]\<rparr>),
       frame_of := (frame_of s)(f := (frame_of s f)\<lparr>col := Some c\<rparr>)\<rparr>"

text \<open>
  Modelled from the spec: \<open>(*workspace).createColumn\<close> is not among the source files. The
  spec says "create a new column at that edge", of the configured default width: a fresh
  column without frames, put first when \<open>start\<close> is true and last otherwise.
\<close>

definition createColumn :: "wref \<Rightarrow> bool \<Rightarrow> WM \<Rightarrow> cref \<times> WM" where
  "createColumn w start s =
    (let c = next_column s
     in (c, s\<lparr>column_of := (column_of s)(c := \<lparr>ws = w, frames = [], width = ColumnWidth (config s)\<rparr>),
               workspace_of := (workspace_of s)
                 (w := (workspace_of s w)\<lparr>columns :=
                    (if start then c # columns (workspace_of s w)
                     else columns (workspace_of s w) @ [c])\<rparr>),
               next_column := Suc c\<rparr>))"

text \<open>
  Modelled from the spec: \<open>(*workspace).deleteColumn\<close> is not among the source files. The
  spec says "delete it from the workspace": the column leaves the workspace's column order.
\<close>

definition deleteColumn :: "wref \<Rightarrow> cref \<Rightarrow> WM \<Rightarrow> WM" where
  "deleteColumn w c s =
     s\<lparr>workspace_of := (workspace_of s)
         (w := (workspace_of s w)\<lparr>columns := remove1 c (columns (workspace_of s w))\<rparr>)\<rparr>"

text \<open>
  Modelled from the spec: \<open>(*workspace).deleteFrame\<close> is not among the source files. It
  reports whether the frame was contained in the workspace. A frame found in a column is
  removed from it, and "a column with zero frames ... must be removed from its workspace by
  whoever empties it"; a frame found in no column leaves the workspace as it is.
\<close>

definition workspace_deleteFrame :: "wref \<Rightarrow> fref \<Rightarrow> WM \<Rightarrow> bool \<times> WM" where
  "workspace_deleteFrame w f s =
    (case find (\<lambda>c. f \<in> set (frames (column_of s c))) (columns (workspace_of s w)) of
       None \<Rightarrow> (False, s)
     | Some c \<Rightarrow>
         (let s1 = column_deleteFrame c f s
          in (True, if frames (column_of s1 c) = [] then deleteColumn w c s1 else s1)))"

text \<open>
  Modelled from the spec: \<open>(*output).addWorkspace\<close> is not among the source files. The spec
  says "attach it to the current output": the workspace's back-reference is set to the
  output.
\<close>

definition output_addWorkspace :: "oref \<Rightarrow> wref \<Rightarrow> WM \<Rightarrow> error option \<times> WM" where
  "output_addWorkspace out w s =
     (None, s\<lparr>workspace_of := (workspace_of s)(w := (workspace_of s w)\<lparr>output_ws := Some out\<rparr>)\<rparr>)"

text \<open>
  Modelled from the spec: \<open>(*output).switchWorkspace\<close> is not among the source files. The
  spec's "switch active workspace on an output": the workspace becomes the output's
  active one.
\<close>

definition output_switchWorkspace :: "oref \<Rightarrow> wref \<Rightarrow> WM \<Rightarrow> error option \<times> WM" where
  "output_switchWorkspace out w s =
     (None, s\<lparr>output_of := (output_of s)(out := (output_of s out)\<lparr>activeWs := Some w\<rparr>)\<rparr>)"

text \<open>
  Modelled from the spec: \<open>updateDesktopHints\<close>, \<open>removeFocus\<close>, \<open>setFocus\<close> and the client's
  \<open>Unmap\<close> are not among the source files. The spec treats them as calls to external
  collaborators that succeed or fail with a server-level error; each is one request.
  \<open>setFocus\<close> records the focused window.
\<close>

definition updateDesktopHints :: "xserver \<Rightarrow> WM \<Rightarrow> error option \<times> WM" where
  "updateDesktopHints srv s = xcall srv UpdateDesktopHints s"

definition removeFocus :: "xserver \<Rightarrow> WM \<Rightarrow> error option \<times> WM" where
  "removeFocus srv s = xcall srv RemoveFocus s"

definition setFocus :: "xserver \<Rightarrow> window \<Rightarrow> WM \<Rightarrow> error option \<times> WM" where
  "setFocus srv win s = xcall srv (SetFocus win) (s\<lparr>activeWin := win\<rparr>)"

definition cli_Unmap :: "xserver \<Rightarrow> fref \<Rightarrow> WM \<Rightarrow> error option \<times> WM" where
  "cli_Unmap srv f s = xcall srv (UnmapWindow (window (client (frame_of s f)))) s"

section \<open>Move and placement operations\<close>

text \<open>
  \<open>(*WM).findFrame\<close>: the frames of every column of every workspace, in order, then the
  dock frames of every output; the first frame that satisfies the predicate.
\<close>

definition findFrame :: "(frame \<Rightarrow> bool) \<Rightarrow> WM \<Rightarrow> fref option" where
  "findFrame P s =
     find (\<lambda>f. P (frame_of s f))
       (concat (map (\<lambda>w. concat (map (\<lambda>c. frames (column_of s c)) (columns (workspace_of s w))))
                  (workspaces s))
        @ concat (map (\<lambda>out. dockAreas (output_of s out) dockAreaTop
                             @ dockAreas (output_of s out) dockAreaBottom) (outputs s)))"

text \<open>
  The end of the \<open>MoveLeft\<close> and \<open>MoveRight\<close> cases:
  \<open>if len(origCol.frames) == 0 { ws.deleteColumn(origCol) }\<close>.
\<close>

definition dropEmptyColumn :: "wref \<Rightarrow> cref \<Rightarrow> WM \<Rightarrow> WM" where
  "dropEmptyColumn w origCol s =
     (if length (frames (column_of s origCol)) = 0 then deleteColumn w origCol s else s)"

text \<open>The \<open>MoveLeft\<close> case. \<open>ws.columns[i-1]\<close> panics when \<open>i - 1\<close> is out of range.\<close>

definition moveWindow_left :: "fref \<Rightarrow> cref \<Rightarrow> wref \<Rightarrow> WM \<Rightarrow> (error option \<times> WM) outcome" where
  "moveWindow_left f origCol w s =
    (let i = findColumnIndex s w (\<lambda>c. c = origCol);
         s1 = column_deleteFrame origCol f s
     in if i = 0 then
          (let (c, s2) = createColumn w True s1
           in Returned (None, dropEmptyColumn w origCol (column_addFrame c f s2)))
        else if 0 \<le> i - 1 \<and> i - 1 < int (length (columns (workspace_of s1 w))) then
          Returned (None, dropEmptyColumn w origCol
                      (column_addFrame (columns (workspace_of s1 w) ! nat (i - 1)) f s1))
        else Panicked)"

text \<open>The \<open>MoveRight\<close> case. \<open>len\<close> is a signed \<open>int\<close>, so \<open>len(ws.columns)-1\<close> can be \<open>-1\<close>.\<close>

definition moveWindow_right :: "fref \<Rightarrow> cref \<Rightarrow> wref \<Rightarrow> WM \<Rightarrow> (error option \<times> WM) outcome" where
  "moveWindow_right f origCol w s =
    (let i = findColumnIndex s w (\<lambda>c. c = origCol);
         s1 = column_deleteFrame origCol f s
     in if i = int (length (columns (workspace_of s1 w))) - 1 then
          (let (c, s2) = createColumn w False s1
           in Returned (None, dropEmptyColumn w origCol (column_addFrame c f s2)))
        else if 0 \<le> i + 1 \<and> i + 1 < int (length (columns (workspace_of s1 w))) then
          Returned (None, dropEmptyColumn w origCol
                      (column_addFrame (columns (workspace_of s1 w) ! nat (i + 1)) f s1))
        else Panicked)"

text \<open>
  The \<open>MoveUp\<close> and \<open>MoveDown\<close> cases: two writes into \<open>col.frames\<close>; an index out of range
  panics.
\<close>

definition moveWindow_up :: "fref \<Rightarrow> cref \<Rightarrow> WM \<Rightarrow> (error option \<times> WM) outcome" where
  "moveWindow_up f c s =
    (let i = findFrameIndex s c (\<lambda>frm. f = frm);
         fs = frames (column_of s c)
     in if i > 0 then
          (if i < int (length fs) then
             (let other = fs ! nat (i - 1)
              in Returned (None, s\<lparr>column_of := (column_of s)
                   (c := (column_of s c)\<lparr>frames := fs[nat (i - 1) := f, nat i := other]\<rparr>)\<rparr>))
           else Panicked)
        else Returned (None, s))"

definition moveWindow_down :: "fref \<Rightarrow> cref \<Rightarrow> WM \<Rightarrow> (error option \<times> WM) outcome" where
  "moveWindow_down f c s =
    (let i = findFrameIndex s c (\<lambda>frm. f = frm);
         fs = frames (column_of s c)
     in if i < int (length fs) - 1 then
          (if 0 \<le> i then
             (let other = fs ! nat (i + 1)
              in Returned (None, s\<lparr>column_of := (column_of s)
                   (c := (column_of s c)\<lparr>frames := fs[nat (i + 1) := f, nat i := other]\<rparr>)\<rparr>))
           else Panicked)
        else Returned (None, s))"

text \<open>
  \<open>moveWindow\<close>: a window that no frame holds is ignored; \<open>f.col.ws\<close> panics for a frame
  without a column (a dock frame).
\<close>

definition moveWindow :: "window \<Rightarrow> MoveDirection \<Rightarrow> WM \<Rightarrow> (error option \<times> WM) outcome" where
  "moveWindow win dir s =
    (case findFrame (\<lambda>fr. window (client fr) = win) s of
       None \<Rightarrow> Returned (None, s)
     | Some f \<Rightarrow>
         (case col (frame_of s f) of
            None \<Rightarrow> Panicked
          | Some c \<Rightarrow>
              (case dir of
                 MoveLeft \<Rightarrow> moveWindow_left f c (ws (column_of s c)) s
               | MoveRight \<Rightarrow> moveWindow_right f c (ws (column_of s c)) s
               | MoveUp \<Rightarrow> moveWindow_up f c s
               | MoveDown \<Rightarrow> moveWindow_down f c s)))"

text \<open>
  \<open>ensureWorkspace\<close>: the first workspace with the identifier; \<open>wm.outputs[0]\<close> panics when
  there is no output.
\<close>

definition ensureWorkspace :: "u8 \<Rightarrow> WM \<Rightarrow> ((error + wref) \<times> WM) outcome" where
  "ensureWorkspace i s =
    (case find (\<lambda>w. id_ws (workspace_of s w) = i) (workspaces s) of
       None \<Rightarrow> Returned (Inl (NoWorkspace i), s)
     | Some nextWs \<Rightarrow>
         (case outputs s of
            [] \<Rightarrow> Panicked
          | out # _ \<Rightarrow>
              (case output_ws (workspace_of s nextWs) of
                 None \<Rightarrow>
                   (case output_addWorkspace out nextWs s of
                      (Some e, s1) \<Rightarrow> Returned (Inl e, s1)
                    | (None, s1) \<Rightarrow> Returned (Inr nextWs, s1))
               | Some out' \<Rightarrow>
                   (if out' \<noteq> out then Returned (Inl MultipleOutputs, s)
                    else Returned (Inr nextWs, s)))))"

text \<open>
  The end of \<open>switchWorkspace\<close>: the first frame of the first column, when there is one,
  gets the focus.
\<close>

definition focusFirst :: "xserver \<Rightarrow> wref \<Rightarrow> WM \<Rightarrow> (error option \<times> WM) outcome" where
  "focusFirst srv w s =
    (case columns (workspace_of s w) of
       [] \<Rightarrow> Returned (None, s)
     | c # _ \<Rightarrow>
         (case frames (column_of s c) of
            [] \<Rightarrow> Returned (None, s)
          | f # _ \<Rightarrow>
              (case setFocus srv (window (client (frame_of s f))) s of
                 (Some e, s1) \<Rightarrow> Returned (Some (Wrap ''failed to set focus'' e), s1)
               | (None, s1) \<Rightarrow> Returned (None, s1))))"

definition switchWorkspace :: "xserver \<Rightarrow> u8 \<Rightarrow> WM \<Rightarrow> (error option \<times> WM) outcome" where
  "switchWorkspace srv i s =
    (case ensureWorkspace i s of
       Panicked \<Rightarrow> Panicked
     | Returned (Inl e, s1) \<Rightarrow> Returned (Some (Wrap ''failed to ensure workspace'' e), s1)
     | Returned (Inr w, s1) \<Rightarrow>
         (case output_ws (workspace_of s1 w) of
            None \<Rightarrow> Panicked
          | Some out \<Rightarrow>
              (case output_switchWorkspace out w s1 of
                 (Some e, s2) \<Rightarrow> Returned (Some (Wrap ''output unable to switch workpace'' e), s2)
               | (None, s2) \<Rightarrow>
                   (case renderWorkspace srv w s2 of
                      Panicked \<Rightarrow> Panicked
                    | Returned (Some e, s3) \<Rightarrow> Returned (Some (Wrap ''wm.renderWorkspace'' e), s3)
                    | Returned (None, s3) \<Rightarrow>
                        (case updateDesktopHints srv s3 of
                           (Some e, s4) \<Rightarrow>
                             Returned (Some (Wrap ''failed to update desktop hints'' e), s4)
                         | (None, s4) \<Rightarrow>
                             (case removeFocus srv s4 of
                                (Some e, s5) \<Rightarrow>
                                  Returned (Some (Wrap ''failed to remove focus'' e), s5)
                              | (None, s5) \<Rightarrow> focusFirst srv w s5))))))"

text \<open>
  The end of \<open>moveFrameToWorkspace\<close>, after the frame has been inserted into the next
  workspace: unmap, render both workspaces, refresh the desktop hints.
\<close>

definition afterInsert :: "xserver \<Rightarrow> fref \<Rightarrow> wref \<Rightarrow> wref \<Rightarrow> WM \<Rightarrow> (error option \<times> WM) outcome" where
  "afterInsert srv f nxt current s =
    (case cli_Unmap srv f s of
       (Some e, s1) \<Rightarrow> Returned (Some (Wrap ''failed to unmap the frame'' e), s1)
     | (None, s1) \<Rightarrow>
         (case renderWorkspace srv nxt s1 of
            Panicked \<Rightarrow> Panicked
          | Returned (Some e, s2) \<Rightarrow> Returned (Some (Wrap ''failed to render next workspace'' e), s2)
          | Returned (None, s2) \<Rightarrow>
              (case renderWorkspace srv current s2 of
                 Panicked \<Rightarrow> Panicked
               | Returned (Some e, s3) \<Rightarrow>
                   Returned (Some (Wrap ''failed to render previous workspace'' e), s3)
               | Returned (None, s3) \<Rightarrow>
                   (case updateDesktopHints srv s3 of
                      (Some e, s4) \<Rightarrow>
                        Returned (Some (Wrap ''failed to update desktop hints'' e), s4)
                    | (None, s4) \<Rightarrow> Returned (None, s4)))))"

text \<open>
  \<open>moveFrameToWorkspace\<close>. \<open>(*workspace).addFrame\<close> is not among the source files, and the
  spec says only that the frame is inserted into the target workspace's tree, not where:
  it is the parameter \<open>addFrame\<close>. \<open>current\<close> is a pointer that may be nil; \<open>next\<close> never is,
  and \<open>current.deleteFrame\<close> on a nil workspace panics.
\<close>

definition moveFrameToWorkspace ::
  "xserver \<Rightarrow> (wref \<Rightarrow> fref \<Rightarrow> WM \<Rightarrow> error option \<times> WM) \<Rightarrow> fref \<Rightarrow> u8 \<Rightarrow> WM
     \<Rightarrow> (error option \<times> WM) outcome" where
  "moveFrameToWorkspace srv addFrame f wsID s =
    (case outputs s of
       [] \<Rightarrow> Panicked
     | out # _ \<Rightarrow>
         (case ensureWorkspace wsID s of
            Panicked \<Rightarrow> Panicked
          | Returned (Inl e, s1) \<Rightarrow> Returned (Some e, s1)
          | Returned (Inr nxt, s1) \<Rightarrow>
              (if Some nxt = activeWs (output_of s out) then Returned (None, s1)
               else
                 (case activeWs (output_of s out) of
                    None \<Rightarrow> Panicked
                  | Some current \<Rightarrow>
                      (case workspace_deleteFrame current f s1 of
                         (False, s2) \<Rightarrow> Returned (Some (FrameNotContained wsID), s2)
                       | (True, s2) \<Rightarrow>
                           (case addFrame nxt f s2 of
                              (Some e, s3) \<Rightarrow>
                                Returned (Some (Wrap ''failed to add the frame to the next workspace'' e), s3)
                            | (None, s3) \<Rightarrow> afterInsert srv f nxt current s3))))))"

text \<open>
  The spec's words for what a sequence of renders reports, "the most recent error": the
  last error of the list, nil when there is none.
\<close>

definition lastError :: "error option list \<Rightarrow> error option" where
  "lastError es = (case filter (\<lambda>e. e \<noteq> None) es of [] \<Rightarrow> None | e # rest \<Rightarrow> last (e # rest))"

section \<open>A concrete window manager state\<close>

text \<open>
  Two outputs of 1920 by 1080; the first shows workspace 0 (two columns, frames 2, 3 and 6
  in the left one, frame 4 in the right one) and has the dock frames \<open>tp\<close> at its top.
  Workspace 1 holds the single frame 5, workspace 2 is attached to no output, workspace 3
  belongs to the second output. Frame 0 is a dock frame of height 0, frame 3 is unmapped,
  frame 4 has the container window 99.
\<close>

definition mk_frame :: "cref option \<Rightarrow> window \<Rightarrow> window \<Rightarrow> u32 \<Rightarrow> winType \<Rightarrow> bool \<Rightarrow> frame" where
  "mk_frame c p cw h t m =
     \<lparr>col = c, parent = p, client = \<lparr>window = cw\<rparr>, height = h, typ_frame = t, mapped = m,
      geom = \<lparr>X = 0, Y = 0, W = 0, H = 0\<rparr>\<rparr>"

definition ex_frames :: "fref \<Rightarrow> frame" where
  "ex_frames f =
    (if f = 0 then mk_frame None 20 10 0 winTypeDock True
     else if f = 1 then mk_frame None 21 11 30 winTypeDock True
     else if f = 2 then mk_frame (Some 0) 22 12 600 winTypeNormal True
     else if f = 3 then mk_frame (Some 0) 23 13 250 winTypeNormal False
     else if f = 4 then mk_frame (Some 1) 99 14 1050 winTypeNormal True
     else if f = 5 then mk_frame (Some 2) 25 15 1050 winTypeNormal True
     else mk_frame (Some 0) 26 16 200 winTypeNormal True)"

definition ex_columns :: "cref \<Rightarrow> column" where
  "ex_columns c =
    (if c = 0 then \<lparr>ws = 0, frames = [2, 3, 6], width = 960\<rparr>
     else if c = 1 then \<lparr>ws = 0, frames = [4], width = 960\<rparr>
     else \<lparr>ws = 1, frames = [5], width = 1920\<rparr>)"

definition ex_workspaces :: "wref \<Rightarrow> workspace" where
  "ex_workspaces w =
    (if w = 0 then \<lparr>id_ws = 0, columns = [0, 1], output_ws = Some 0\<rparr>
     else if w = 1 then \<lparr>id_ws = 1, columns = [2], output_ws = Some 0\<rparr>
     else if w = 2 then \<lparr>id_ws = 2, columns = [], output_ws = None\<rparr>
     else \<lparr>id_ws = 3, columns = [], output_ws = Some 1\<rparr>)"

definition ex_outputs :: "fref list \<Rightarrow> oref \<Rightarrow> output_t" where
  "ex_outputs tp out =
     \<lparr>geom = \<lparr>X = 0, Y = 0, W = 1920, H = 1080\<rparr>,
      dockAreas = (\<lambda>a. case a of dockAreaTop \<Rightarrow> (if out = 0 then tp else [])
                               | dockAreaBottom \<Rightarrow> []),
      activeWs = (if out = 0 then Some 0 else Some 3)\<rparr>"

definition ex_wm :: "fref list \<Rightarrow> WM" where
  "ex_wm tp =
     \<lparr>outputs = [0, 1], config = \<lparr>InnerGap = 5, ColumnWidth = 960\<rparr>,
      workspaces = [0, 1, 2, 3], activeWin = 0,
      frame_of = ex_frames, column_of = ex_columns, workspace_of = ex_workspaces,
      output_of = ex_outputs tp, next_column = 3, xlog = []\<rparr>"

text \<open>
  A server that rejects a configure request of zero width or height (\<open>BadValue\<close>, 2) and
  any configure request for window 99 (\<open>BadWindow\<close>, 3), and accepts everything else.
\<close>

definition ex_srv :: xserver where
  "ex_srv lg r =
    (case r of
       ConfigureWindow win x y w h \<Rightarrow>
         (if win = 99 then Some 3 else if w = 0 \<or> h = 0 then Some 2 else None)
     | _ \<Rightarrow> None)"

section \<open>Properties\<close>

subsection \<open>What rendering a frame changes\<close>

lemma xcall_simps:
  "fst (xcall srv r s) = map_option XError (srv (xlog s) r)"
  "snd (xcall srv r s) = s\<lparr>xlog := xlog s @ [r]\<rparr>"
  by (simp_all add: xcall_def)

lemma renderFrame_state:
  "\<exists>lg. snd (renderFrame srv f g s) =
     s\<lparr>frame_of := (if mapped (frame_of s f)
                      then (frame_of s)(f := (frame_of s f)\<lparr>frame.geom := g\<rparr>)
                      else frame_of s),
       xlog := lg\<rparr>"
proof (cases "mapped (frame_of s f)")
  case False
  then have "snd (renderFrame srv f g s) = s\<lparr>frame_of := frame_of s, xlog := xlog s\<rparr>"
    by (simp add: renderFrame_def)
  with False show ?thesis by (intro exI [of _ "xlog s"]) simp
next
  case True
  then show ?thesis
    by (auto simp: renderFrame_def xcall_def Let_def split: option.splits)
qed

lemma renderFrame_frame_of:
  "frame_of (snd (renderFrame srv f g s)) =
     (if mapped (frame_of s f) then (frame_of s)(f := (frame_of s f)\<lparr>frame.geom := g\<rparr>)
      else frame_of s)"
  using renderFrame_state [of srv f g s] by auto

lemma renderFrame_other:
  "column_of (snd (renderFrame srv f g s)) = column_of s"
  "workspace_of (snd (renderFrame srv f g s)) = workspace_of s"
  "output_of (snd (renderFrame srv f g s)) = output_of s"
  "config (snd (renderFrame srv f g s)) = config s"
  "outputs (snd (renderFrame srv f g s)) = outputs s"
  "workspaces (snd (renderFrame srv f g s)) = workspaces s"
  "next_column (snd (renderFrame srv f g s)) = next_column s"
  "activeWin (snd (renderFrame srv f g s)) = activeWin s"
  using renderFrame_state [of srv f g s] by auto

lemma renderFrame_fields:
  "height (frame_of (snd (renderFrame srv f g s)) f') = height (frame_of s f')"
  "mapped (frame_of (snd (renderFrame srv f g s)) f') = mapped (frame_of s f')"
  "col (frame_of (snd (renderFrame srv f g s)) f') = col (frame_of s f')"
  "client (frame_of (snd (renderFrame srv f g s)) f') = client (frame_of s f')"
  "parent (frame_of (snd (renderFrame srv f g s)) f') = parent (frame_of s f')"
  by (simp_all add: renderFrame_frame_of)

lemma renderFrame_geom:
  "frame.geom (frame_of (snd (renderFrame srv f g s)) f') =
     (if f' = f \<and> mapped (frame_of s f) then g else frame.geom (frame_of s f'))"
  by (simp add: renderFrame_frame_of)

lemma renderColumn_loop_fields:
  "height (frame_of (snd (renderColumn_loop srv gap g fs y err s)) f') = height (frame_of s f')"
  "mapped (frame_of (snd (renderColumn_loop srv gap g fs y err s)) f') = mapped (frame_of s f')"
  by (induction fs arbitrary: y err s)
     (simp_all add: Let_def split_beta renderFrame_fields)

lemma renderColumn_loop_geom_notin:
  "f' \<notin> set fs \<Longrightarrow>
   frame.geom (frame_of (snd (renderColumn_loop srv gap g fs y err s)) f') = frame.geom (frame_of s f')"
  by (induction fs arbitrary: y err s)
     (auto simp: Let_def split_beta renderFrame_geom)

text \<open>
  C8. A frame with \<open>mapped = false\<close> is skipped by \<open>renderFrame\<close>: the call returns nil and
  the whole state is the one it started from, so no geometry is assigned, no request is
  sent to the server, no field of the frame changes and the frame keeps its place in its
  container.
\<close>

theorem renderFrame_unmapped:
  assumes "\<not> mapped (frame_of s f)"
  shows "renderFrame srv f g s = (None, s)"
  using assms by (simp add: renderFrame_def)

theorem renderFrame_unmapped_witness:
  "\<not> mapped (frame_of (ex_wm []) 3) \<and>
   renderFrame ex_srv 3 \<lparr>X = 0, Y = 630, W = 960, H = 250\<rparr> (ex_wm []) = (None, ex_wm [])"
  using renderFrame_unmapped [of "ex_wm []" 3 ex_srv "\<lparr>X = 0, Y = 630, W = 960, H = 250\<rparr>"]
  by (simp add: ex_wm_def ex_frames_def mk_frame_def)

subsection \<open>Geometry of a column\<close>

lemma renderColumn_loop_geom:
  "distinct fs \<Longrightarrow> k < length fs \<Longrightarrow>
   frame.geom (frame_of (snd (renderColumn_loop srv gap g fs y err s)) (fs ! k)) =
     (if mapped (frame_of s (fs ! k))
      then \<lparr>X = X g + gap,
            Y = (y + sum_list (map (\<lambda>f. height (frame_of s f)) (take k fs))) + gap,
            W = W g - 2 * gap,
            H = height (frame_of s (fs ! k)) - 2 * gap\<rparr>
      else frame.geom (frame_of s (fs ! k)))"
proof (induction fs arbitrary: k y err s)
  case Nil
  then show ?case by simp
next
  case (Cons f fs)
  show ?case
  proof (cases k)
    case 0
    with Cons.prems show ?thesis
      by (simp add: Let_def split_beta renderColumn_loop_geom_notin renderFrame_geom mult.commute)
  next
    case (Suc j)
    with Cons.prems have j: "j < length fs" and d: "distinct fs" and nf: "fs ! j \<noteq> f"
      by auto
    show ?thesis
      using Cons.IH [OF d j] nf Suc
      by (simp add: Let_def split_beta renderFrame_fields renderFrame_geom add.assoc)
  qed
qed

text \<open>
  C3. \<open>renderColumn\<close> walks the frames of the column from the top. With the column's
  rectangle \<open>rect\<close> and the configured inner gap, the \<open>k\<close>-th frame is given the rectangle
  with \<open>x = rect.x + gap\<close>, \<open>y = runningY + gap\<close>, \<open>width = rect.width - 2 * gap\<close> and
  \<open>height =\<close> the frame's height share \<open>- 2 * gap\<close>, where \<open>runningY\<close> is \<open>rect.y\<close> plus the
  height shares of the frames above. The arithmetic is that of \<open>uint32\<close>. The rectangle is
  assigned to a mapped frame; an unmapped frame keeps the geometry it had. The frames of a
  column are distinct.
\<close>

theorem renderColumn_geometry:
  assumes "distinct (frames (column_of s c))" and "k < length (frames (column_of s c))"
  shows "frame.geom (frame_of (snd (renderColumn srv c rect s)) (frames (column_of s c) ! k)) =
     (if mapped (frame_of s (frames (column_of s c) ! k))
      then \<lparr>X = X rect + InnerGap (config s),
            Y = (Y rect + sum_list (map (\<lambda>f. height (frame_of s f)) (take k (frames (column_of s c)))))
                  + InnerGap (config s),
            W = W rect - 2 * InnerGap (config s),
            H = height (frame_of s (frames (column_of s c) ! k)) - 2 * InnerGap (config s)\<rparr>
      else frame.geom (frame_of s (frames (column_of s c) ! k)))"
  using assms by (simp add: renderColumn_def renderColumn_loop_geom)

theorem renderColumn_geometry_witness:
  "distinct (frames (column_of (ex_wm []) 0)) \<and> 2 < length (frames (column_of (ex_wm []) 0)) \<and>
   frame.geom (frame_of (snd (renderColumn ex_srv 0 \<lparr>X = 0, Y = 30, W = 960, H = 1050\<rparr> (ex_wm []))) 6)
     = \<lparr>X = 5, Y = 885, W = 950, H = 190\<rparr>"
  using renderColumn_geometry [of "ex_wm []" 0 2 ex_srv "\<lparr>X = 0, Y = 30, W = 960, H = 1050\<rparr>"]
  by (simp add: ex_wm_def ex_columns_def ex_frames_def mk_frame_def)

subsection \<open>The single-frame fast path\<close>

lemma single_frame_columns:
  assumes "\<forall>c\<in>set cs. F c \<noteq> []" and "concat (map F cs) = [f]"
  shows "\<exists>c. cs = [c] \<and> F c = [f]"
proof (cases cs)
  case Nil
  with assms show ?thesis by simp
next
  case (Cons c cs')
  with assms have ne: "F c \<noteq> []" and app: "F c @ concat (map F cs') = [f]"
    by auto
  from ne app have fc: "F c = [f]" and rest: "concat (map F cs') = []"
    by (auto simp: append_eq_Cons_conv)
  have "cs' = []"
  proof (cases cs')
    case Nil
    then show ?thesis .
  next
    case (Cons c' cs'')
    with rest have "F c' = []" by simp
    moreover from assms(1) \<open>cs = c # cs'\<close> Cons have "F c' \<noteq> []" by simp
    ultimately show ?thesis by simp
  qed
  with Cons fc show ?thesis by simp
qed

text \<open>
  C4. A workspace that holds exactly one frame in total (no column of it being empty) is
  rendered by a single call of \<open>renderFrame\<close> for that frame with the full usable area, the
  output rectangle minus the dock heights: no column or frame splitting takes place and
  no inner gap is applied. When the frame is mapped, its geometry afterwards is that area.
\<close>

theorem renderWorkspace_single_frame:
  assumes "\<forall>c\<in>set (columns (workspace_of s w)). frames (column_of s c) \<noteq> []"
    and "concat (map (\<lambda>c. frames (column_of s c)) (columns (workspace_of s w))) = [f]"
    and "output_ws (workspace_of s w) = Some out"
    and "usable = \<lparr>X = X (output_t.geom (output_of s out)),
                   Y = Y (output_t.geom (output_of s out)) + dockHeight s out dockAreaTop,
                   W = W (output_t.geom (output_of s out)),
                   H = H (output_t.geom (output_of s out)) - dockHeight s out dockAreaTop
                         - dockHeight s out dockAreaBottom\<rparr>"
  shows "renderWorkspace srv w s = Returned (renderFrame srv f usable s) \<and>
         (mapped (frame_of s f) \<longrightarrow>
            frame.geom (frame_of (snd (result (renderWorkspace srv w s))) f) = usable)"
proof -
  from single_frame_columns [OF assms(1,2)]
  obtain c where "columns (workspace_of s w) = [c]" and "frames (column_of s c) = [f]"
    by blast
  then have "singleFrame s w = Some f"
    by (simp add: singleFrame_def)
  with assms(3,4) have "renderWorkspace srv w s = Returned (renderFrame srv f usable s)"
    by (simp add: renderWorkspace_def fullArea_def)
  then show ?thesis
    by (simp add: renderFrame_geom)
qed

theorem renderWorkspace_single_frame_witness:
  "map (\<lambda>c. frames (column_of (ex_wm [1]) c)) (columns (workspace_of (ex_wm [1]) 1)) = [[5]] \<and>
   output_ws (workspace_of (ex_wm [1]) 1) = Some 0 \<and>
   mapped (frame_of (ex_wm [1]) 5) \<and>
   frame.geom (frame_of (snd (result (renderWorkspace ex_srv 1 (ex_wm [1])))) 5)
     = \<lparr>X = 0, Y = 30, W = 1920, H = 1050\<rparr>"
proof -
  have h1: "\<forall>c\<in>set (columns (workspace_of (ex_wm [1]) 1)). frames (column_of (ex_wm [1]) c) \<noteq> []"
    by (simp add: ex_wm_def ex_workspaces_def ex_columns_def)
  have h2: "concat (map (\<lambda>c. frames (column_of (ex_wm [1]) c))
              (columns (workspace_of (ex_wm [1]) 1))) = [5]"
    by (simp add: ex_wm_def ex_workspaces_def ex_columns_def)
  have h3: "output_ws (workspace_of (ex_wm [1]) 1) = Some 0"
    by (simp add: ex_wm_def ex_workspaces_def)
  have h4: "\<lparr>X = 0, Y = 30, W = 1920, H = 1050\<rparr> =
      \<lparr>X = X (output_t.geom (output_of (ex_wm [1]) 0)),
       Y = Y (output_t.geom (output_of (ex_wm [1]) 0)) + dockHeight (ex_wm [1]) 0 dockAreaTop,
       W = W (output_t.geom (output_of (ex_wm [1]) 0)),
       H = H (output_t.geom (output_of (ex_wm [1]) 0)) - dockHeight (ex_wm [1]) 0 dockAreaTop
             - dockHeight (ex_wm [1]) 0 dockAreaBottom\<rparr>"
    by (simp add: ex_wm_def ex_outputs_def ex_frames_def mk_frame_def dockHeight_def)
  have h5: "mapped (frame_of (ex_wm [1]) 5)"
    by (simp add: ex_wm_def ex_frames_def mk_frame_def)
  from renderWorkspace_single_frame [OF h1 h2 h3 h4, of ex_srv] h5
  have "frame.geom (frame_of (snd (result (renderWorkspace ex_srv 1 (ex_wm [1])))) 5)
     = \<lparr>X = 0, Y = 30, W = 1920, H = 1050\<rparr>"
    by blast
  moreover have "map (\<lambda>c. frames (column_of (ex_wm [1]) c))
      (columns (workspace_of (ex_wm [1]) 1)) = [[5]]"
    by (simp add: ex_wm_def ex_workspaces_def ex_columns_def)
  ultimately show ?thesis using h3 h5 by blast
qed

subsection \<open>Errors of the render loops\<close>

lemma lastError3:
  "lastError [e1, e2, e3] =
     (case e3 of Some _ \<Rightarrow> e3 | None \<Rightarrow> (case e2 of Some _ \<Rightarrow> e2 | None \<Rightarrow> e1))"
  by (cases e1; cases e2; cases e3) (simp_all add: lastError_def)

text \<open>
  C1, as amended. \<open>renderOutput\<close> renders the top dock area, the bottom dock area and the
  active workspace, each one whatever the others returned, and returns the last error among
  the three results (nil when all three are nil). The claim's "first error" does not
  hold: \<open>err\<close> is overwritten by every region that fails.
\<close>

theorem renderOutput_last_error:
  assumes "renderDock srv out dockAreaTop s = (e1, s1)"
    and "renderDock srv out dockAreaBottom s1 = (e2, s2)"
    and "activeWs (output_of s2 out) = Some w"
    and "renderWorkspace srv w s2 = Returned (e3, s3)"
  shows "renderOutput srv out s = Returned (lastError [e1, e2, e3], s3)"
  using assms
  by (cases e1; cases e2; cases e3) (simp_all add: renderOutput_def lastError3)

theorem renderOutput_last_error_witness:
  "fst (renderDock ex_srv 0 dockAreaTop (ex_wm [0])) = Some (XError 2) \<and>
   fst (renderDock ex_srv 0 dockAreaBottom (snd (renderDock ex_srv 0 dockAreaTop (ex_wm [0])))) = None \<and>
   map_outcome fst (renderOutput ex_srv 0 (ex_wm [0]))
     = Returned (lastError [Some (XError 2), None, Some (XError 3)])"
proof -
  let ?r1 = "renderDock ex_srv 0 dockAreaTop (ex_wm [0])"
  let ?r2 = "renderDock ex_srv 0 dockAreaBottom (snd ?r1)"
  let ?r3 = "renderWorkspace ex_srv 0 (snd ?r2)"
  have h1: "?r1 = (fst ?r1, snd ?r1)" and h2: "?r2 = (fst ?r2, snd ?r2)"
    by simp_all
  have h3: "activeWs (output_of (snd ?r2) 0) = Some 0"
    by code_simp
  have "is_Returned ?r3"
    by code_simp
  then have h4: "?r3 = Returned (fst (result ?r3), snd (result ?r3))"
    by (cases ?r3) simp_all
  have e1: "fst ?r1 = Some (XError 2)" and e2: "fst ?r2 = None"
    and e3: "fst (result ?r3) = Some (XError 3)"
    by code_simp+
  from renderOutput_last_error [OF h1 h2 h3 h4] e1 e2 e3 show ?thesis
    by simp
qed

text \<open>
  C1 as stated fails: the top dock (a dock frame of height 0, rejected by the server with
  error 2) fails first, the workspace (container window 99, error 3) fails last, and
  \<open>renderOutput\<close> returns error 3, not the first error.
\<close>

theorem renderOutput_first_error_counterexample:
  "fst (renderDock ex_srv 0 dockAreaTop (ex_wm [0])) = Some (XError 2) \<and>
   map_outcome fst (renderOutput ex_srv 0 (ex_wm [0])) = Returned (Some (XError 3)) \<and>
   map_outcome fst (renderOutput ex_srv 0 (ex_wm [0]))
     \<noteq> Returned (fst (renderDock ex_srv 0 dockAreaTop (ex_wm [0])))"
  by code_simp

text \<open>
  The loops of \<open>renderColumn\<close> and \<open>renderWorkspace\<close> never drop an error they have seen: a
  later sibling that renders well leaves it in place.
\<close>

lemma renderColumn_loop_keeps_error:
  "fst (renderColumn_loop srv gap g fs y (Some e) s) \<noteq> None"
  by (induction fs arbitrary: y e s) (auto simp: Let_def split_beta split: option.splits)

lemma renderWorkspace_loop_keeps_error:
  "fst (renderWorkspace_loop srv a cs x (Some e) s) \<noteq> None"
  by (induction cs arbitrary: x e s) (auto simp: Let_def split_beta split: option.splits)

text \<open>
  C2. In the loop of \<open>renderDock\<close> an error is dropped: the dock area holds frame 0 (height
  0, its configure request is rejected with error 2) and then frame 1 (which renders
  well); rendering frame 0 fails, and \<open>renderDock\<close> returns nil.
\<close>

theorem renderDock_drops_earlier_error:
  "fst (renderFrame ex_srv 0 \<lparr>X = 0, Y = 0, W = 1920, H = 0\<rparr> (ex_wm [0, 1])) = Some (XError 2) \<and>
   fst (renderDock ex_srv 0 dockAreaTop (ex_wm [0, 1])) = None"
  by code_simp

section \<open>Properties of the move operations\<close>

subsection \<open>Searching by index\<close>

lemma find_from_nth:
  "i < length xs \<Longrightarrow> P (xs ! i) \<Longrightarrow> \<forall>y\<in>set (take i xs). \<not> P y \<Longrightarrow>
   find_from P xs k = k + int i"
proof (induction xs arbitrary: i k)
  case Nil
  then show ?case by simp
next
  case (Cons x xs)
  show ?case
  proof (cases i)
    case 0
    with Cons.prems show ?thesis by simp
  next
    case (Suc j)
    with Cons.prems have "j < length xs" "P (xs ! j)" "\<forall>y\<in>set (take j xs). \<not> P y" "\<not> P x"
      by auto
    with Cons.IH [of j "k + 1"] Suc show ?thesis by simp
  qed
qed

lemma find_from_none: "\<forall>y\<in>set xs. \<not> P y \<Longrightarrow> find_from P xs k = - 1"
  by (induction xs arbitrary: k) auto

lemma findFrameIndex_nth:
  assumes "j < length (frames (column_of s c))" and "frames (column_of s c) ! j = f"
    and "f \<notin> set (take j (frames (column_of s c)))"
  shows "findFrameIndex s c (\<lambda>frm. f = frm) = int j"
  using find_from_nth [of j "frames (column_of s c)" "\<lambda>frm. f = frm" 0] assms
  by (auto simp: findFrameIndex_def)

lemma distinct_take_notin:
  "distinct xs \<Longrightarrow> i < length xs \<Longrightarrow> xs ! i \<notin> set (take i xs)"
  by (auto simp: in_set_conv_nth nth_eq_iff_index_eq)

lemma findColumnIndex_nth:
  assumes "distinct (columns (workspace_of s w))" and "i < length (columns (workspace_of s w))"
    and "columns (workspace_of s w) ! i = c"
  shows "findColumnIndex s w (\<lambda>c'. c' = c) = int i"
proof -
  from distinct_take_notin [OF assms(1,2)] assms(3)
  have "\<forall>y\<in>set (take i (columns (workspace_of s w))). \<not> y = c" by auto
  with find_from_nth [of i "columns (workspace_of s w)" "\<lambda>c'. c' = c" 0] assms(2,3)
  show ?thesis by (simp add: findColumnIndex_def)
qed

subsection \<open>Moving a frame within its column\<close>

lemma moveWindow_up_nth:
  assumes "j < length (frames (column_of s c))" and "frames (column_of s c) ! j = f"
    and "f \<notin> set (take j (frames (column_of s c)))"
  shows "moveWindow_up f c s =
     Returned (None,
       if j = 0 then s
       else s\<lparr>column_of := (column_of s)
              (c := (column_of s c)\<lparr>frames := (frames (column_of s c))
                      [j - 1 := f, j := frames (column_of s c) ! (j - 1)]\<rparr>)\<rparr>)"
  using assms(1)
  by (cases j) (simp_all add: moveWindow_up_def findFrameIndex_nth [OF assms] Let_def nat_add_distrib)

lemma moveWindow_down_nth:
  assumes "j < length (frames (column_of s c))" and "frames (column_of s c) ! j = f"
    and "f \<notin> set (take j (frames (column_of s c)))"
  shows "moveWindow_down f c s =
     Returned (None,
       if Suc j = length (frames (column_of s c)) then s
       else s\<lparr>column_of := (column_of s)
              (c := (column_of s c)\<lparr>frames := (frames (column_of s c))
                      [Suc j := f, j := frames (column_of s c) ! Suc j]\<rparr>)\<rparr>)"
proof -
  have "nat (int j + 1) = Suc j" by simp
  with assms(1) show ?thesis
    by (auto simp: moveWindow_down_def findFrameIndex_nth [OF assms] Let_def)
qed

lemma swap_set:
  "a < length xs \<Longrightarrow> b < length xs \<Longrightarrow> set (xs[a := xs ! b, b := xs ! a]) = set xs"
  by (metis list_update_swap list_update_id set_swap list_update_overwrite)

text \<open>
  C9. Moving a frame up or down within its column, the frame being at index \<open>j\<close> of the
  column's frames: up swaps it with the frame at \<open>j - 1\<close>, down with the frame at \<open>j + 1\<close>;
  a frame that is already first (up) or last (down) is not moved, and the call returns
  nil with the state as it was. In every case the column keeps its length and its frames.
\<close>

theorem moveWindow_vertical:
  assumes "findFrame (\<lambda>fr. window (client fr) = win) s = Some f"
    and "col (frame_of s f) = Some c"
    and "frames (column_of s c) = fs"
    and "j < length fs" and "fs ! j = f" and "f \<notin> set (take j fs)"
  shows "moveWindow win MoveUp s =
           Returned (None,
             if j = 0 then s
             else s\<lparr>column_of := (column_of s)
                    (c := (column_of s c)\<lparr>frames := fs[j - 1 := f, j := fs ! (j - 1)]\<rparr>)\<rparr>) \<and>
         moveWindow win MoveDown s =
           Returned (None,
             if Suc j = length fs then s
             else s\<lparr>column_of := (column_of s)
                    (c := (column_of s c)\<lparr>frames := fs[Suc j := f, j := fs ! Suc j]\<rparr>)\<rparr>) \<and>
         (\<forall>dir\<in>{MoveUp, MoveDown}.
            length (frames (column_of (snd (result (moveWindow win dir s))) c)) = length fs \<and>
            set (frames (column_of (snd (result (moveWindow win dir s))) c)) = set fs)"
proof -
  have up: "moveWindow win MoveUp s =
           Returned (None,
             if j = 0 then s
             else s\<lparr>column_of := (column_of s)
                    (c := (column_of s c)\<lparr>frames := fs[j - 1 := f, j := fs ! (j - 1)]\<rparr>)\<rparr>)"
    using assms by (simp add: moveWindow_def moveWindow_up_nth)
  have down: "moveWindow win MoveDown s =
           Returned (None,
             if Suc j = length fs then s
             else s\<lparr>column_of := (column_of s)
                    (c := (column_of s c)\<lparr>frames := fs[Suc j := f, j := fs ! Suc j]\<rparr>)\<rparr>)"
    using assms by (simp add: moveWindow_def moveWindow_down_nth)
  have up_same: "length (frames (column_of (snd (result (moveWindow win MoveUp s))) c)) = length fs \<and>
      set (frames (column_of (snd (result (moveWindow win MoveUp s))) c)) = set fs"
  proof (cases "j = 0")
    case True
    with up assms(3) show ?thesis by simp
  next
    case False
    with swap_set [of "j - 1" fs j] assms(4,5)
    have "set (fs[j - 1 := f, j := fs ! (j - 1)]) = set fs" by simp
    with up False show ?thesis by simp
  qed
  have down_same: "length (frames (column_of (snd (result (moveWindow win MoveDown s))) c)) = length fs \<and>
      set (frames (column_of (snd (result (moveWindow win MoveDown s))) c)) = set fs"
  proof (cases "Suc j = length fs")
    case True
    with down assms(3) show ?thesis by simp
  next
    case False
    with swap_set [of "Suc j" fs j] assms(4,5)
    have "set (fs[Suc j := f, j := fs ! Suc j]) = set fs" by simp
    with down False show ?thesis by simp
  qed
  from up down up_same down_same show ?thesis
    by blast
qed

theorem moveWindow_vertical_witness:
  "findFrame (\<lambda>fr. window (client fr) = 13) (ex_wm []) = Some 3 \<and>
   col (frame_of (ex_wm []) 3) = Some 0 \<and>
   frames (column_of (ex_wm []) 0) = [2, 3, 6] \<and>
   map_outcome (\<lambda>r. (fst r, frames (column_of (snd r) 0))) (moveWindow 13 MoveUp (ex_wm []))
     = Returned (None, [3, 2, 6]) \<and>
   map_outcome (\<lambda>r. (fst r, frames (column_of (snd r) 0))) (moveWindow 13 MoveDown (ex_wm []))
     = Returned (None, [2, 6, 3])"
proof -
  have h1: "findFrame (\<lambda>fr. window (client fr) = 13) (ex_wm []) = Some 3"
    by code_simp
  have h2: "col (frame_of (ex_wm []) 3) = Some 0"
    by code_simp
  have h3: "frames (column_of (ex_wm []) 0) = [2, 3, 6]"
    by code_simp
  have h4: "1 < length [2, 3, 6 :: nat]" and h5: "[2, 3, 6] ! 1 = (3 :: nat)"
    and h6: "(3 :: nat) \<notin> set (take 1 [2, 3, 6])"
    by simp_all
  from moveWindow_vertical [OF h1 h2 h3 h4 h5 h6]
  have "moveWindow 13 MoveUp (ex_wm []) =
          Returned (None, (ex_wm [])\<lparr>column_of := (column_of (ex_wm []))
             (0 := (column_of (ex_wm []) 0)\<lparr>frames := [3, 2, 6]\<rparr>)\<rparr>)"
    and "moveWindow 13 MoveDown (ex_wm []) =
          Returned (None, (ex_wm [])\<lparr>column_of := (column_of (ex_wm []))
             (0 := (column_of (ex_wm []) 0)\<lparr>frames := [2, 6, 3]\<rparr>)\<rparr>)"
    by simp_all
  with h1 h2 h3 show ?thesis
    by simp
qed

subsection \<open>Moving a frame to a neighbouring column\<close>

lemma remove1_single:
  "f \<in> set fs \<Longrightarrow> (remove1 f fs = []) = (fs = [f])"
  by (cases fs) (auto split: if_splits)

lemma moveWindow_left_first:
  assumes "columns (workspace_of s w) = cols" and "distinct cols" and "0 < length cols"
    and "cols ! 0 = c" and "frames (column_of s c) = fs" and "f \<in> set fs" and "distinct fs"
    and "\<forall>c'\<in>set cols. frames (column_of s c') \<noteq> [] \<and> c' < next_column s"
  shows "\<exists>s'. moveWindow_left f c w s = Returned (None, s') \<and>
     f \<notin> set (frames (column_of s' c)) \<and>
     columns (workspace_of s' w) = next_column s # (if fs = [f] then remove1 c cols else cols) \<and>
     next_column s \<notin> set cols \<and>
     frames (column_of s' (next_column s)) = [f] \<and>
     (fs = [f] \<longrightarrow> c \<notin> set (columns (workspace_of s' w))) \<and>
     (\<forall>c'\<in>set (columns (workspace_of s' w)). frames (column_of s' c') \<noteq> [])"
proof -
  have idx: "findColumnIndex s w (\<lambda>c'. c' = c) = 0"
    using findColumnIndex_nth [of s w 0 c] assms(1-4) by simp
  have cin: "c \<in> set cols" using assms(3,4) nth_mem by fastforce
  with assms(8) have cn: "c \<noteq> next_column s" and nn: "next_column s \<notin> set cols"
    by auto
  have rm: "(remove1 f fs = []) = (fs = [f])"
    using assms(6) by (rule remove1_single)
  show ?thesis
    using idx cn nn rm assms(1,2,5,7,8)
    by (auto simp: moveWindow_left_def Let_def createColumn_def column_deleteFrame_def
          column_addFrame_def dropEmptyColumn_def deleteColumn_def)
qed

lemma moveWindow_left_inner:
  assumes "columns (workspace_of s w) = cols" and "distinct cols" and "i < length cols"
    and "0 < i"
    and "cols ! i = c" and "frames (column_of s c) = fs" and "f \<in> set fs" and "distinct fs"
    and "\<forall>c'\<in>set cols. frames (column_of s c') \<noteq> [] \<and> c' < next_column s"
  shows "\<exists>s'. moveWindow_left f c w s = Returned (None, s') \<and>
     f \<notin> set (frames (column_of s' c)) \<and>
     columns (workspace_of s' w) = (if fs = [f] then remove1 c cols else cols) \<and>
     frames (column_of s' (cols ! (i - 1))) = frames (column_of s (cols ! (i - 1))) @ [f] \<and>
     (fs = [f] \<longrightarrow> c \<notin> set (columns (workspace_of s' w))) \<and>
     (\<forall>c'\<in>set (columns (workspace_of s' w)). frames (column_of s' c') \<noteq> [])"
proof -
  have idx: "findColumnIndex s w (\<lambda>c'. c' = c) = int i"
    using findColumnIndex_nth [of s w i c] assms(1-3,5) by simp
  have adj: "cols ! (i - 1) \<noteq> c"
    using assms(2-5) by (auto simp: nth_eq_iff_index_eq)
  have i1: "nat (int i - 1) = i - 1" by simp
  have rm: "(remove1 f fs = []) = (fs = [f])"
    using assms(7) by (rule remove1_single)
  show ?thesis
    using idx adj rm i1 assms(1-4,6,8,9)
    by (auto simp: moveWindow_left_def Let_def column_deleteFrame_def
          column_addFrame_def dropEmptyColumn_def deleteColumn_def)
qed

lemma moveWindow_right_last:
  assumes "columns (workspace_of s w) = cols" and "distinct cols" and "Suc i = length cols"
    and "cols ! i = c" and "frames (column_of s c) = fs" and "f \<in> set fs" and "distinct fs"
    and "\<forall>c'\<in>set cols. frames (column_of s c') \<noteq> [] \<and> c' < next_column s"
  shows "\<exists>s'. moveWindow_right f c w s = Returned (None, s') \<and>
     f \<notin> set (frames (column_of s' c)) \<and>
     columns (workspace_of s' w) = (if fs = [f] then remove1 c cols else cols) @ [next_column s] \<and>
     next_column s \<notin> set cols \<and>
     frames (column_of s' (next_column s)) = [f] \<and>
     (fs = [f] \<longrightarrow> c \<notin> set (columns (workspace_of s' w))) \<and>
     (\<forall>c'\<in>set (columns (workspace_of s' w)). frames (column_of s' c') \<noteq> [])"
proof -
  have il: "i < length cols" using assms(3) by simp
  have idx: "findColumnIndex s w (\<lambda>c'. c' = c) = int i"
    using findColumnIndex_nth [of s w i c] assms(1,2,4) il by simp
  have len: "int (length cols) - 1 = int i" using assms(3) by simp
  have cin: "c \<in> set cols" using il assms(4) nth_mem by fastforce
  with assms(8) have cn: "c \<noteq> next_column s" and nn: "next_column s \<notin> set cols"
    by auto
  have rm: "(remove1 f fs = []) = (fs = [f])"
    using assms(6) by (rule remove1_single)
  show ?thesis
    using idx len cn nn cin rm assms(1,2,5,7,8)
    by (auto simp: moveWindow_right_def Let_def createColumn_def column_deleteFrame_def
          column_addFrame_def dropEmptyColumn_def deleteColumn_def remove1_append)
qed

lemma moveWindow_right_inner:
  assumes "columns (workspace_of s w) = cols" and "distinct cols" and "Suc i < length cols"
    and "cols ! i = c" and "frames (column_of s c) = fs" and "f \<in> set fs" and "distinct fs"
    and "\<forall>c'\<in>set cols. frames (column_of s c') \<noteq> [] \<and> c' < next_column s"
  shows "\<exists>s'. moveWindow_right f c w s = Returned (None, s') \<and>
     f \<notin> set (frames (column_of s' c)) \<and>
     columns (workspace_of s' w) = (if fs = [f] then remove1 c cols else cols) \<and>
     frames (column_of s' (cols ! Suc i)) = frames (column_of s (cols ! Suc i)) @ [f] \<and>
     (fs = [f] \<longrightarrow> c \<notin> set (columns (workspace_of s' w))) \<and>
     (\<forall>c'\<in>set (columns (workspace_of s' w)). frames (column_of s' c') \<noteq> [])"
proof -
  have il: "i < length cols" using assms(3) by simp
  have idx: "findColumnIndex s w (\<lambda>c'. c' = c) = int i"
    using findColumnIndex_nth [of s w i c] assms(1,2,4) il by simp
  have adj: "cols ! Suc i \<noteq> c"
    using assms(2-4) il by (auto simp: nth_eq_iff_index_eq)
  have i1: "nat (int i + 1) = Suc i" by simp
  have rm: "(remove1 f fs = []) = (fs = [f])"
    using assms(6) by (rule remove1_single)
  show ?thesis
    using idx adj rm i1 assms(1-3,5,7,8)
    by (auto simp: moveWindow_right_def Let_def column_deleteFrame_def
          column_addFrame_def dropEmptyColumn_def deleteColumn_def)
qed

text \<open>
  C5. Moving a frame left or right, in a workspace whose columns are distinct, allocated
  and none of them empty, the frame being in the column at index \<open>i\<close>: the frame leaves
  its column. Moved left from the leftmost column (right from the rightmost), a new
  column is created at that edge and holds exactly the frame; otherwise the frame is
  appended to the neighbouring column. When the original column is left without frames it
  is deleted from the workspace, and no column of the workspace is empty after the move.
\<close>

theorem moveWindow_horizontal:
  assumes "findFrame (\<lambda>fr. window (client fr) = win) s = Some f"
    and "col (frame_of s f) = Some c" and "ws (column_of s c) = w"
    and "columns (workspace_of s w) = cols" and "distinct cols"
    and "i < length cols" and "cols ! i = c"
    and "frames (column_of s c) = fs" and "f \<in> set fs" and "distinct fs"
    and "\<forall>c'\<in>set cols. frames (column_of s c') \<noteq> [] \<and> c' < next_column s"
  shows "(\<exists>s'. moveWindow win MoveLeft s = Returned (None, s') \<and>
            f \<notin> set (frames (column_of s' c)) \<and>
            (if i = 0
             then columns (workspace_of s' w)
                    = next_column s # (if fs = [f] then remove1 c cols else cols) \<and>
                  next_column s \<notin> set cols \<and>
                  frames (column_of s' (next_column s)) = [f]
             else columns (workspace_of s' w) = (if fs = [f] then remove1 c cols else cols) \<and>
                  frames (column_of s' (cols ! (i - 1)))
                    = frames (column_of s (cols ! (i - 1))) @ [f]) \<and>
            (fs = [f] \<longrightarrow> c \<notin> set (columns (workspace_of s' w))) \<and>
            (\<forall>c'\<in>set (columns (workspace_of s' w)). frames (column_of s' c') \<noteq> [])) \<and>
         (\<exists>s'. moveWindow win MoveRight s = Returned (None, s') \<and>
            f \<notin> set (frames (column_of s' c)) \<and>
            (if Suc i = length cols
             then columns (workspace_of s' w)
                    = (if fs = [f] then remove1 c cols else cols) @ [next_column s] \<and>
                  next_column s \<notin> set cols \<and>
                  frames (column_of s' (next_column s)) = [f]
             else columns (workspace_of s' w) = (if fs = [f] then remove1 c cols else cols) \<and>
                  frames (column_of s' (cols ! Suc i))
                    = frames (column_of s (cols ! Suc i)) @ [f]) \<and>
            (fs = [f] \<longrightarrow> c \<notin> set (columns (workspace_of s' w))) \<and>
            (\<forall>c'\<in>set (columns (workspace_of s' w)). frames (column_of s' c') \<noteq> []))"
proof -
  have l: "moveWindow win MoveLeft s = moveWindow_left f c w s"
    and r: "moveWindow win MoveRight s = moveWindow_right f c w s"
    using assms(1-3) by (simp_all add: moveWindow_def)
  have left: "\<exists>s'. moveWindow win MoveLeft s = Returned (None, s') \<and>
            f \<notin> set (frames (column_of s' c)) \<and>
            (if i = 0
             then columns (workspace_of s' w)
                    = next_column s # (if fs = [f] then remove1 c cols else cols) \<and>
                  next_column s \<notin> set cols \<and>
                  frames (column_of s' (next_column s)) = [f]
             else columns (workspace_of s' w) = (if fs = [f] then remove1 c cols else cols) \<and>
                  frames (column_of s' (cols ! (i - 1)))
                    = frames (column_of s (cols ! (i - 1))) @ [f]) \<and>
            (fs = [f] \<longrightarrow> c \<notin> set (columns (workspace_of s' w))) \<and>
            (\<forall>c'\<in>set (columns (workspace_of s' w)). frames (column_of s' c') \<noteq> [])"
  proof (cases "i = 0")
    case True
    with moveWindow_left_first [OF assms(4,5) _ _ assms(8-11)] assms(6,7) l
    show ?thesis by simp
  next
    case False
    with moveWindow_left_inner [OF assms(4-6) _ assms(7-11)] l
    show ?thesis by simp
  qed
  have right: "\<exists>s'. moveWindow win MoveRight s = Returned (None, s') \<and>
            f \<notin> set (frames (column_of s' c)) \<and>
            (if Suc i = length cols
             then columns (workspace_of s' w)
                    = (if fs = [f] then remove1 c cols else cols) @ [next_column s] \<and>
                  next_column s \<notin> set cols \<and>
                  frames (column_of s' (next_column s)) = [f]
             else columns (workspace_of s' w) = (if fs = [f] then remove1 c cols else cols) \<and>
                  frames (column_of s' (cols ! Suc i))
                    = frames (column_of s (cols ! Suc i)) @ [f]) \<and>
            (fs = [f] \<longrightarrow> c \<notin> set (columns (workspace_of s' w))) \<and>
            (\<forall>c'\<in>set (columns (workspace_of s' w)). frames (column_of s' c') \<noteq> [])"
  proof (cases "Suc i = length cols")
    case True
    with moveWindow_right_last [OF assms(4,5) _ assms(7-11)] r
    show ?thesis by simp
  next
    case False
    with assms(6) have "Suc i < length cols" by simp
    with moveWindow_right_inner [OF assms(4,5) _ assms(7-11)] r False
    show ?thesis by simp
  qed
  from left right show ?thesis by (rule conjI)
qed

theorem moveWindow_horizontal_witness:
  "findFrame (\<lambda>fr. window (client fr) = 14) (ex_wm []) = Some 4 \<and>
   col (frame_of (ex_wm []) 4) = Some 1 \<and> ws (column_of (ex_wm []) 1) = 0 \<and>
   columns (workspace_of (ex_wm []) 0) = [0, 1] \<and> frames (column_of (ex_wm []) 1) = [4] \<and>
   (\<exists>s'. moveWindow 14 MoveLeft (ex_wm []) = Returned (None, s') \<and>
      columns (workspace_of s' 0) = [0] \<and> frames (column_of s' 0) = [2, 3, 6, 4]) \<and>
   (\<exists>s'. moveWindow 14 MoveRight (ex_wm []) = Returned (None, s') \<and>
      columns (workspace_of s' 0) = [0, 3] \<and> frames (column_of s' 3) = [4])"
proof -
  have h1: "findFrame (\<lambda>fr. window (client fr) = 14) (ex_wm []) = Some 4"
    by code_simp
  have h2: "col (frame_of (ex_wm []) 4) = Some 1" and h3: "ws (column_of (ex_wm []) 1) = 0"
    and h4: "columns (workspace_of (ex_wm []) 0) = [0, 1]"
    and h8: "frames (column_of (ex_wm []) 1) = [4]"
    and f0: "frames (column_of (ex_wm []) 0) = [2, 3, 6]"
    and nc: "next_column (ex_wm []) = 3"
    by (simp_all add: ex_wm_def ex_frames_def mk_frame_def ex_columns_def ex_workspaces_def)
  have h5: "distinct [0, 1 :: nat]" and h6: "1 < length [0, 1 :: nat]" and h7: "[0, 1] ! 1 = (1 :: nat)"
    and h9: "(4 :: nat) \<in> set [4]" and h10: "distinct [4 :: nat]"
    by simp_all
  have h11: "\<forall>c'\<in>set [0, 1]. frames (column_of (ex_wm []) c') \<noteq> [] \<and> c' < next_column (ex_wm [])"
    by (simp add: ex_wm_def ex_columns_def)
  from moveWindow_horizontal [OF h1 h2 h3 h4 h5 h6 h7 h8 h9 h10 h11]
  have "(\<exists>s'. moveWindow 14 MoveLeft (ex_wm []) = Returned (None, s') \<and>
      columns (workspace_of s' 0) = [0] \<and> frames (column_of s' 0) = [2, 3, 6, 4]) \<and>
   (\<exists>s'. moveWindow 14 MoveRight (ex_wm []) = Returned (None, s') \<and>
      columns (workspace_of s' 0) = [0, 3] \<and> frames (column_of s' 3) = [4])"
    by (simp add: f0 nc, blast)
  with h1 h2 h3 h4 h8 show ?thesis by blast
qed

subsection \<open>Workspaces and outputs\<close>

lemma xcall_other:
  "workspace_of (snd (xcall srv r s)) = workspace_of s"
  "column_of (snd (xcall srv r s)) = column_of s"
  "frame_of (snd (xcall srv r s)) = frame_of s"
  "output_of (snd (xcall srv r s)) = output_of s"
  by (simp_all add: xcall_def)

lemma renderColumn_loop_other:
  "workspace_of (snd (renderColumn_loop srv gap g fs y err s)) = workspace_of s"
  "column_of (snd (renderColumn_loop srv gap g fs y err s)) = column_of s"
  "output_of (snd (renderColumn_loop srv gap g fs y err s)) = output_of s"
  by (induction fs arbitrary: y err s) (simp_all add: Let_def split_beta renderFrame_other)

lemma renderWorkspace_loop_other:
  "workspace_of (snd (renderWorkspace_loop srv a cs x err s)) = workspace_of s"
  "column_of (snd (renderWorkspace_loop srv a cs x err s)) = column_of s"
  "output_of (snd (renderWorkspace_loop srv a cs x err s)) = output_of s"
  by (induction cs arbitrary: x err s)
     (simp_all add: Let_def split_beta renderColumn_def renderColumn_loop_other)

lemma renderWorkspace_returns:
  assumes "output_ws (workspace_of s w) = Some out"
  shows "\<exists>e s'. renderWorkspace srv w s = Returned (e, s') \<and>
           workspace_of s' = workspace_of s \<and> column_of s' = column_of s \<and>
           output_of s' = output_of s"
proof (cases "singleFrame s w")
  case None
  with assms show ?thesis
    by (simp add: renderWorkspace_def area_def fullArea_def renderWorkspace_loop_other
          prod_eq_iff)
next
  case (Some f)
  with assms show ?thesis
    by (simp add: renderWorkspace_def fullArea_def renderFrame_other prod_eq_iff)
qed

lemma focusFirst_returns:
  "\<exists>e s'. focusFirst srv w s = Returned (e, s') \<and>
           workspace_of s' = workspace_of s \<and> column_of s' = column_of s"
  by (auto simp: focusFirst_def setFocus_def xcall_def split: list.splits option.splits)

lemma ensureWorkspace_not_found:
  "find (\<lambda>w. id_ws (workspace_of s w) = i) (workspaces s) = None \<Longrightarrow>
   ensureWorkspace i s = Returned (Inl (NoWorkspace i), s)"
  by (simp add: ensureWorkspace_def)

lemma ensureWorkspace_other_output:
  "find (\<lambda>w. id_ws (workspace_of s w) = i) (workspaces s) = Some w \<Longrightarrow>
   outputs s = out # rest \<Longrightarrow> output_ws (workspace_of s w) = Some out' \<Longrightarrow> out' \<noteq> out \<Longrightarrow>
   ensureWorkspace i s = Returned (Inl MultipleOutputs, s)"
  by (simp add: ensureWorkspace_def)

lemma ensureWorkspace_same_output:
  "find (\<lambda>w. id_ws (workspace_of s w) = i) (workspaces s) = Some w \<Longrightarrow>
   outputs s = out # rest \<Longrightarrow> output_ws (workspace_of s w) = Some out \<Longrightarrow>
   ensureWorkspace i s = Returned (Inr w, s)"
  by (simp add: ensureWorkspace_def)

lemma ensureWorkspace_attach:
  "find (\<lambda>w. id_ws (workspace_of s w) = i) (workspaces s) = Some w \<Longrightarrow>
   outputs s = out # rest \<Longrightarrow> output_ws (workspace_of s w) = None \<Longrightarrow>
   ensureWorkspace i s =
     Returned (Inr w, s\<lparr>workspace_of := (workspace_of s)(w := (workspace_of s w)\<lparr>output_ws := Some out\<rparr>)\<rparr>)"
  by (simp add: ensureWorkspace_def output_addWorkspace_def)

text \<open>
  C6. \<open>switchWorkspace\<close>: when no workspace has the identifier, it fails with the not-found
  error and the state is unchanged; when the workspace found is assigned to no output, it
  is attached to the current output (the first one), whatever the later steps return, and
  the columns of every workspace are as before; when the workspace found belongs to a
  different output, it fails with the "multiple outputs not supported" error and the state
  is unchanged.
\<close>

theorem switchWorkspace_ensure:
  "(find (\<lambda>w. id_ws (workspace_of s w) = i) (workspaces s) = None \<longrightarrow>
      switchWorkspace srv i s =
        Returned (Some (Wrap ''failed to ensure workspace'' (NoWorkspace i)), s)) \<and>
   (find (\<lambda>w. id_ws (workspace_of s w) = i) (workspaces s) = Some w \<and> outputs s = out # rest \<longrightarrow>
      (output_ws (workspace_of s w) = None \<longrightarrow>
         (\<exists>e s'. switchWorkspace srv i s = Returned (e, s') \<and>
            output_ws (workspace_of s' w) = Some out \<and>
            (\<forall>w'. w' \<noteq> w \<longrightarrow> workspace_of s' w' = workspace_of s w') \<and>
            columns (workspace_of s' w) = columns (workspace_of s w) \<and>
            column_of s' = column_of s)) \<and>
      (\<forall>out'. output_ws (workspace_of s w) = Some out' \<and> out' \<noteq> out \<longrightarrow>
         switchWorkspace srv i s =
           Returned (Some (Wrap ''failed to ensure workspace'' MultipleOutputs), s)))"
proof (intro conjI impI allI)
  assume "find (\<lambda>w. id_ws (workspace_of s w) = i) (workspaces s) = None"
  then show "switchWorkspace srv i s =
      Returned (Some (Wrap ''failed to ensure workspace'' (NoWorkspace i)), s)"
    by (simp add: switchWorkspace_def ensureWorkspace_not_found)
next
  fix out'
  assume "find (\<lambda>w. id_ws (workspace_of s w) = i) (workspaces s) = Some w \<and> outputs s = out # rest"
    and "output_ws (workspace_of s w) = Some out' \<and> out' \<noteq> out"
  then show "switchWorkspace srv i s =
      Returned (Some (Wrap ''failed to ensure workspace'' MultipleOutputs), s)"
    by (simp add: switchWorkspace_def ensureWorkspace_other_output [of s i w out rest out'])
next
  assume a: "find (\<lambda>w. id_ws (workspace_of s w) = i) (workspaces s) = Some w \<and> outputs s = out # rest"
    and b: "output_ws (workspace_of s w) = None"
  define s1 where "s1 = s\<lparr>workspace_of := (workspace_of s)(w := (workspace_of s w)\<lparr>output_ws := Some out\<rparr>)\<rparr>"
  define s2 where "s2 = s1\<lparr>output_of := (output_of s1)(out := (output_of s1 out)\<lparr>activeWs := Some w\<rparr>)\<rparr>"
  have ens: "ensureWorkspace i s = Returned (Inr w, s1)"
    using a b by (simp add: ensureWorkspace_attach s1_def)
  have o1: "output_ws (workspace_of s1 w) = Some out"
    by (simp add: s1_def)
  have sw: "output_switchWorkspace out w s1 = (None, s2)"
    by (simp add: output_switchWorkspace_def s2_def)
  have w2: "workspace_of s2 = workspace_of s1" and c2: "column_of s2 = column_of s"
    by (simp_all add: s2_def s1_def)
  from renderWorkspace_returns [of s2 w out srv] o1 w2
  obtain e3 s3 where r3: "renderWorkspace srv w s2 = Returned (e3, s3)"
    and w3: "workspace_of s3 = workspace_of s1" and c3: "column_of s3 = column_of s"
    using c2 by auto
  have goal: "\<And>s'. workspace_of s' = workspace_of s1 \<Longrightarrow> column_of s' = column_of s \<Longrightarrow>
      output_ws (workspace_of s' w) = Some out \<and>
      (\<forall>w'. w' \<noteq> w \<longrightarrow> workspace_of s' w' = workspace_of s w') \<and>
      columns (workspace_of s' w) = columns (workspace_of s w) \<and>
      column_of s' = column_of s"
    by (simp add: s1_def)
  show "\<exists>e s'. switchWorkspace srv i s = Returned (e, s') \<and>
            output_ws (workspace_of s' w) = Some out \<and>
            (\<forall>w'. w' \<noteq> w \<longrightarrow> workspace_of s' w' = workspace_of s w') \<and>
            columns (workspace_of s' w) = columns (workspace_of s w) \<and>
            column_of s' = column_of s"
  proof (cases e3)
    case (Some e)
    with ens o1 sw r3 have "switchWorkspace srv i s = Returned (Some (Wrap ''wm.renderWorkspace'' e), s3)"
      by (simp add: switchWorkspace_def)
    with goal [OF w3 c3] show ?thesis by blast
  next
    case None
    note e3 = None
    obtain e4 s4 where u: "updateDesktopHints srv s3 = (e4, s4)" by (cases "updateDesktopHints srv s3")
    then have w4: "workspace_of s4 = workspace_of s1" and c4: "column_of s4 = column_of s"
      using w3 c3 xcall_other(1,2) [of srv UpdateDesktopHints s3]
      by (auto simp: updateDesktopHints_def)
    show ?thesis
    proof (cases e4)
      case (Some e)
      with ens o1 sw r3 e3 u
      have "switchWorkspace srv i s = Returned (Some (Wrap ''failed to update desktop hints'' e), s4)"
        by (simp add: switchWorkspace_def)
      with goal [OF w4 c4] show ?thesis by blast
    next
      case None
      note e4 = None
      obtain e5 s5 where rf: "removeFocus srv s4 = (e5, s5)" by (cases "removeFocus srv s4")
      then have w5: "workspace_of s5 = workspace_of s1" and c5: "column_of s5 = column_of s"
        using w4 c4 xcall_other(1,2) [of srv RemoveFocus s4]
        by (auto simp: removeFocus_def)
      show ?thesis
      proof (cases e5)
        case (Some e)
        with ens o1 sw r3 e3 u e4 rf
        have "switchWorkspace srv i s = Returned (Some (Wrap ''failed to remove focus'' e), s5)"
          by (simp add: switchWorkspace_def)
        with goal [OF w5 c5] show ?thesis by blast
      next
        case None
        from focusFirst_returns [of srv w s5]
        obtain e6 s6 where ff: "focusFirst srv w s5 = Returned (e6, s6)"
          and w6: "workspace_of s6 = workspace_of s1" and c6: "column_of s6 = column_of s"
          using w5 c5 by auto
        from ens o1 sw r3 e3 u e4 rf None ff
        have "switchWorkspace srv i s = Returned (e6, s6)"
          by (simp add: switchWorkspace_def)
        with goal [OF w6 c6] show ?thesis by blast
      qed
    qed
  qed
qed

theorem switchWorkspace_ensure_witness:
  "find (\<lambda>w. id_ws (workspace_of (ex_wm []) w) = 7) (workspaces (ex_wm [])) = None \<and>
   switchWorkspace ex_srv 7 (ex_wm [])
     = Returned (Some (Wrap ''failed to ensure workspace'' (NoWorkspace 7)), ex_wm []) \<and>
   find (\<lambda>w. id_ws (workspace_of (ex_wm []) w) = 2) (workspaces (ex_wm [])) = Some 2 \<and>
   output_ws (workspace_of (ex_wm []) 2) = None \<and>
   (\<exists>e s'. switchWorkspace ex_srv 2 (ex_wm []) = Returned (e, s') \<and>
      output_ws (workspace_of s' 2) = Some 0) \<and>
   find (\<lambda>w. id_ws (workspace_of (ex_wm []) w) = 3) (workspaces (ex_wm [])) = Some 3 \<and>
   output_ws (workspace_of (ex_wm []) 3) = Some 1 \<and>
   switchWorkspace ex_srv 3 (ex_wm [])
     = Returned (Some (Wrap ''failed to ensure workspace'' MultipleOutputs), ex_wm [])"
proof -
  have o: "outputs (ex_wm []) = 0 # [1]"
    by (simp add: ex_wm_def)
  have f7: "find (\<lambda>w. id_ws (workspace_of (ex_wm []) w) = 7) (workspaces (ex_wm [])) = None"
    by (simp add: ex_wm_def ex_workspaces_def)
  have f2: "find (\<lambda>w. id_ws (workspace_of (ex_wm []) w) = 2) (workspaces (ex_wm [])) = Some 2"
    by (simp add: ex_wm_def ex_workspaces_def)
  have o2: "output_ws (workspace_of (ex_wm []) 2) = None"
    by (simp add: ex_wm_def ex_workspaces_def)
  have f3: "find (\<lambda>w. id_ws (workspace_of (ex_wm []) w) = 3) (workspaces (ex_wm [])) = Some 3"
    by (simp add: ex_wm_def ex_workspaces_def)
  have o3: "output_ws (workspace_of (ex_wm []) 3) = Some 1"
    by (simp add: ex_wm_def ex_workspaces_def)
  have ne: "(1 :: nat) \<noteq> 0" by simp
  from switchWorkspace_ensure [of "ex_wm []" 7 ex_srv 0 0 "[1]"] f7
  have a: "switchWorkspace ex_srv 7 (ex_wm [])
     = Returned (Some (Wrap ''failed to ensure workspace'' (NoWorkspace 7)), ex_wm [])"
    by blast
  from switchWorkspace_ensure [of "ex_wm []" 2 ex_srv 2 0 "[1]"] f2 o o2
  have b: "\<exists>e s'. switchWorkspace ex_srv 2 (ex_wm []) = Returned (e, s') \<and>
      output_ws (workspace_of s' 2) = Some 0"
    by blast
  from switchWorkspace_ensure [of "ex_wm []" 3 ex_srv 3 0 "[1]"] f3 o o3 ne
  have c: "switchWorkspace ex_srv 3 (ex_wm [])
     = Returned (Some (Wrap ''failed to ensure workspace'' MultipleOutputs), ex_wm [])"
    by blast
  from a b c f7 f2 o2 f3 o3 show ?thesis by blast
qed

text \<open>
  C10. \<open>moveFrameToWorkspace\<close> with an identifier that resolves to the active workspace of
  the current output (which is attached to that output) returns nil and the state is
  unchanged: the tree, the frame, and the log of requests (no unmap, no render, no
  desktop-hint update).
\<close>

theorem moveFrameToWorkspace_same_workspace:
  assumes "outputs s = out # rest"
    and "activeWs (output_of s out) = Some current"
    and "find (\<lambda>w. id_ws (workspace_of s w) = wsID) (workspaces s) = Some current"
    and "output_ws (workspace_of s current) = Some out"
  shows "moveFrameToWorkspace srv addFrame f wsID s = Returned (None, s)"
  using assms
  by (simp add: moveFrameToWorkspace_def ensureWorkspace_same_output [of s wsID current out rest])

theorem moveFrameToWorkspace_same_workspace_witness:
  "outputs (ex_wm []) = 0 # [1] \<and> activeWs (output_of (ex_wm []) 0) = Some 0 \<and>
   find (\<lambda>w. id_ws (workspace_of (ex_wm []) w) = 0) (workspaces (ex_wm [])) = Some 0 \<and>
   output_ws (workspace_of (ex_wm []) 0) = Some 0 \<and>
   moveFrameToWorkspace ex_srv (\<lambda>w f s. (None, s)) 2 0 (ex_wm []) = Returned (None, ex_wm [])"
proof -
  have h1: "outputs (ex_wm []) = 0 # [1]"
    by (simp add: ex_wm_def)
  have h2: "activeWs (output_of (ex_wm []) 0) = Some 0"
    by (simp add: ex_wm_def ex_outputs_def)
  have h3: "find (\<lambda>w. id_ws (workspace_of (ex_wm []) w) = 0) (workspaces (ex_wm [])) = Some 0"
    by (simp add: ex_wm_def ex_workspaces_def)
  have h4: "output_ws (workspace_of (ex_wm []) 0) = Some 0"
    by (simp add: ex_wm_def ex_workspaces_def)
  from moveFrameToWorkspace_same_workspace [OF h1 h2 h3 h4, of ex_srv "\<lambda>w f s. (None, s)" 2] h1 h2 h3 h4
  show ?thesis by blast
qed

lemma workspace_deleteFrame_absent:
  assumes "\<forall>c\<in>set (columns (workspace_of s w)). f \<notin> set (frames (column_of s c))"
  shows "workspace_deleteFrame w f s = (False, s)"
proof -
  from assms have "find (\<lambda>c. f \<in> set (frames (column_of s c))) (columns (workspace_of s w)) = None"
    by (simp add: find_None_iff)
  then show ?thesis by (simp add: workspace_deleteFrame_def)
qed

lemma moveFrameToWorkspace_resolved_not_contained:
  assumes "outputs s = out # rest"
    and "activeWs (output_of s out) = Some current"
    and "find (\<lambda>w. id_ws (workspace_of s w) = wsID) (workspaces s) = Some nxt"
    and "nxt \<noteq> current"
    and "output_ws (workspace_of s nxt) = None \<or> output_ws (workspace_of s nxt) = Some out"
    and "\<forall>c\<in>set (columns (workspace_of s current)). f \<notin> set (frames (column_of s c))"
  shows "moveFrameToWorkspace srv addFrame f wsID s =
     Returned (Some (FrameNotContained wsID),
       if output_ws (workspace_of s nxt) = None
       then s\<lparr>workspace_of := (workspace_of s)(nxt := (workspace_of s nxt)\<lparr>output_ws := Some out\<rparr>)\<rparr>
       else s)"
proof (cases "output_ws (workspace_of s nxt)")
  case None
  let ?s1 = "s\<lparr>workspace_of := (workspace_of s)(nxt := (workspace_of s nxt)\<lparr>output_ws := Some out\<rparr>)\<rparr>"
  have ens: "ensureWorkspace wsID s = Returned (Inr nxt, ?s1)"
    using assms(1,3) None by (simp add: ensureWorkspace_attach)
  have "\<forall>c\<in>set (columns (workspace_of ?s1 current)). f \<notin> set (frames (column_of ?s1 c))"
    using assms(4,6) by simp
  then have "workspace_deleteFrame current f ?s1 = (False, ?s1)"
    by (rule workspace_deleteFrame_absent)
  with ens assms(1,2,4) None show ?thesis
    by (simp add: moveFrameToWorkspace_def)
next
  case (Some out')
  with assms(5) have o: "output_ws (workspace_of s nxt) = Some out" by simp
  have ens: "ensureWorkspace wsID s = Returned (Inr nxt, s)"
    using assms(1,3) o by (simp add: ensureWorkspace_same_output)
  have "workspace_deleteFrame current f s = (False, s)"
    using assms(6) by (rule workspace_deleteFrame_absent)
  with ens assms(1,2,4) o show ?thesis
    by (simp add: moveFrameToWorkspace_def)
qed

text \<open>
  C7, as amended. \<open>moveFrameToWorkspace\<close> for a frame that no column of the source
  workspace (the active workspace of the current output) holds, with an identifier that
  does not resolve to that workspace: an error is returned, and frames, columns, the column
  order of every workspace, the outputs and the log of requests are as before, so the
  frame is not inserted into the target workspace, no unmap is requested and nothing is
  rendered.
\<close>

theorem moveFrameToWorkspace_not_contained:
  assumes "outputs s = out # rest"
    and "activeWs (output_of s out) = Some current"
    and "find (\<lambda>w. id_ws (workspace_of s w) = wsID) (workspaces s) \<noteq> Some current"
    and "\<forall>c\<in>set (columns (workspace_of s current)). f \<notin> set (frames (column_of s c))"
  shows "\<exists>e s'. moveFrameToWorkspace srv addFrame f wsID s = Returned (Some e, s') \<and>
           frame_of s' = frame_of s \<and> column_of s' = column_of s \<and>
           (\<forall>w. columns (workspace_of s' w) = columns (workspace_of s w)) \<and>
           output_of s' = output_of s \<and> xlog s' = xlog s"
proof (cases "find (\<lambda>w. id_ws (workspace_of s w) = wsID) (workspaces s)")
  case None
  with assms(1) have "moveFrameToWorkspace srv addFrame f wsID s = Returned (Some (NoWorkspace wsID), s)"
    by (simp add: moveFrameToWorkspace_def ensureWorkspace_not_found)
  then show ?thesis by simp
next
  case (Some nxt)
  with assms(3) have ne: "nxt \<noteq> current" by simp
  show ?thesis
  proof (cases "output_ws (workspace_of s nxt) = None \<or> output_ws (workspace_of s nxt) = Some out")
    case True
    from moveFrameToWorkspace_resolved_not_contained [OF assms(1,2) Some ne True assms(4)]
    show ?thesis by (auto split: if_splits)
  next
    case False
    then obtain out' where "output_ws (workspace_of s nxt) = Some out'" and "out' \<noteq> out"
      by auto
    with assms(1) Some
    have "moveFrameToWorkspace srv addFrame f wsID s = Returned (Some MultipleOutputs, s)"
      by (simp add: moveFrameToWorkspace_def ensureWorkspace_other_output [of s wsID nxt out rest out'])
    then show ?thesis by simp
  qed
qed

theorem moveFrameToWorkspace_not_contained_witness:
  "outputs (ex_wm []) = 0 # [1] \<and> activeWs (output_of (ex_wm []) 0) = Some 0 \<and>
   find (\<lambda>w. id_ws (workspace_of (ex_wm []) w) = 2) (workspaces (ex_wm [])) = Some 2 \<and>
   5 \<notin> set (concat (map (\<lambda>c. frames (column_of (ex_wm []) c)) (columns (workspace_of (ex_wm []) 0)))) \<and>
   (\<exists>e s'. moveFrameToWorkspace ex_srv (\<lambda>w f s. (None, s)) 5 2 (ex_wm []) = Returned (Some e, s') \<and>
      frame_of s' = frame_of (ex_wm []) \<and> column_of s' = column_of (ex_wm []) \<and>
      (\<forall>w. columns (workspace_of s' w) = columns (workspace_of (ex_wm []) w)) \<and>
      output_of s' = output_of (ex_wm []) \<and> xlog s' = xlog (ex_wm []))"
proof -
  have h1: "outputs (ex_wm []) = 0 # [1]"
    by (simp add: ex_wm_def)
  have h2: "activeWs (output_of (ex_wm []) 0) = Some 0"
    by (simp add: ex_wm_def ex_outputs_def)
  have f: "find (\<lambda>w. id_ws (workspace_of (ex_wm []) w) = 2) (workspaces (ex_wm [])) = Some 2"
    by (simp add: ex_wm_def ex_workspaces_def)
  then have h3: "find (\<lambda>w. id_ws (workspace_of (ex_wm []) w) = 2) (workspaces (ex_wm [])) \<noteq> Some 0"
    by simp
  have h4: "\<forall>c\<in>set (columns (workspace_of (ex_wm []) 0)). 5 \<notin> set (frames (column_of (ex_wm []) c))"
    by (simp add: ex_wm_def ex_workspaces_def ex_columns_def)
  have h5: "5 \<notin> set (concat (map (\<lambda>c. frames (column_of (ex_wm []) c))
      (columns (workspace_of (ex_wm []) 0))))"
    by (simp add: ex_wm_def ex_workspaces_def ex_columns_def)
  from moveFrameToWorkspace_not_contained [OF h1 h2 h3 h4, of ex_srv "\<lambda>w f s. (None, s)"] h1 h2 f h5
  show ?thesis by blast
qed

text \<open>
  C7 as stated fails: frame 5 is in no column of workspace 0, the active workspace of the
  first output, and identifier 0 resolves to that very workspace. \<open>moveFrameToWorkspace\<close>
  leaves at \<open>if next == current { return nil }\<close>, before the containment check, and
  returns nil with the state as it was, not an error.
\<close>

theorem moveFrameToWorkspace_same_target_counterexample:
  "5 \<notin> set (concat (map (\<lambda>c. frames (column_of (ex_wm []) c))
                         (columns (workspace_of (ex_wm []) 0)))) \<and>
   activeWs (output_of (ex_wm []) 0) = Some 0 \<and>
   moveFrameToWorkspace ex_srv (\<lambda>w f s. (None, s)) 5 0 (ex_wm []) = Returned (None, ex_wm [])"
proof -
  have h1: "outputs (ex_wm []) = 0 # [1]"
    by (simp add: ex_wm_def)
  have h2: "activeWs (output_of (ex_wm []) 0) = Some 0"
    by (simp add: ex_wm_def ex_outputs_def)
  have h3: "find (\<lambda>w. id_ws (workspace_of (ex_wm []) w) = 0) (workspaces (ex_wm [])) = Some 0"
    by (simp add: ex_wm_def ex_workspaces_def)
  have h4: "output_ws (workspace_of (ex_wm []) 0) = Some 0"
    by (simp add: ex_wm_def ex_workspaces_def)
  have h5: "5 \<notin> set (concat (map (\<lambda>c. frames (column_of (ex_wm []) c))
                         (columns (workspace_of (ex_wm []) 0))))"
    by (simp add: ex_wm_def ex_workspaces_def ex_columns_def)
  have "ensureWorkspace 0 (ex_wm []) = Returned (Inr 0, ex_wm [])"
    using h3 h1 h4 by (rule ensureWorkspace_same_output)
  with h1 h2
  have "moveFrameToWorkspace ex_srv (\<lambda>w f s. (None, s)) 5 0 (ex_wm []) = Returned (None, ex_wm [])"
    by (simp add: moveFrameToWorkspace_def)
  with h5 h2 show ?thesis by blast
qed

end
